theory Spec2Isabelle
  imports Complex_Main "HOL-Library.Sublist" "HOL-Library.Multiset"
begin

section \<open>JSON values and JavaScript primitives\<close>

text \<open>
  The two route handlers work on parsed JSON documents (\<^verbatim>\<open>Record<string, unknown>\<close>).
  A JSON object is its list of entries in the order \<^verbatim>\<open>Object.entries\<close> enumerates them;
  \<^verbatim>\<open>undefined\<close> (an absent property) is \<open>None\<close>. Strings are lists of 8-bit characters.
  Values are read at the types the source's casts declare: a property read at another
  type than the cast names is treated as absent.
\<close>

datatype json =
    JNull
  | JBool bool
  | JNum real
  | JStr string
  | JArr "json list"
  | JObj "(string \<times> json) list"

text \<open>Property access \<^verbatim>\<open>v.k\<close> on a non-null value: only objects carry the keys read here.\<close>

fun field :: "json \<Rightarrow> string \<Rightarrow> json option" where
  "field (JObj kvs) k = map_of kvs k"
| "field _ k = None"

text \<open>JavaScript truthiness of a JSON value, and of a possibly absent one.\<close>

fun truthy :: "json \<Rightarrow> bool" where
  "truthy JNull = False"
| "truthy (JBool b) = b"
| "truthy (JNum n) = (n \<noteq> 0)"
| "truthy (JStr s) = (s \<noteq> [])"
| "truthy (JArr xs) = True"
| "truthy (JObj kvs) = True"

definition truthy_opt :: "json option \<Rightarrow> bool" where
  "truthy_opt v = (case v of None \<Rightarrow> False | Some j \<Rightarrow> truthy j)"

text \<open>\<^verbatim>\<open>a || b\<close> on possibly absent values.\<close>

definition js_or :: "json option \<Rightarrow> json option \<Rightarrow> json option" where
  "js_or a b = (if truthy_opt a then a else b)"

text \<open>\<^verbatim>\<open>toLowerCase\<close> and \<^verbatim>\<open>toUpperCase\<close> on the ASCII letters.\<close>

definition lower_char :: "char \<Rightarrow> char" where
  "lower_char c =
     (let n = (of_char c :: nat) in if 65 \<le> n \<and> n \<le> 90 then char_of (n + 32) else c)"

definition upper_char :: "char \<Rightarrow> char" where
  "upper_char c =
     (let n = (of_char c :: nat) in if 97 \<le> n \<and> n \<le> 122 then char_of (n - 32) else c)"

definition toLowerCase :: "string \<Rightarrow> string" where
  "toLowerCase s = map lower_char s"

text \<open>
  \<^verbatim>\<open>a.localeCompare(b)\<close> is the platform's collation of the current locale. It is not
  modelled: every definition that sorts takes it as the parameter \<open>localeCompare\<close>, a
  function that returns a negative number, zero or a positive number.
\<close>

text \<open>
  \<^verbatim>\<open>Array.prototype.sort(cmp)\<close> is a stable sort; with a consistent comparator (one that
  orders the elements totally and transitively) its result is the one of a stable
  insertion sort.
\<close>

fun insert_by :: "('a \<Rightarrow> 'a \<Rightarrow> int) \<Rightarrow> 'a \<Rightarrow> 'a list \<Rightarrow> 'a list" where
  "insert_by cmp x [] = [x]"
| "insert_by cmp x (y # ys) =
     (if cmp x y \<le> 0 then x # y # ys else y # insert_by cmp x ys)"

fun sort_by :: "('a \<Rightarrow> 'a \<Rightarrow> int) \<Rightarrow> 'a list \<Rightarrow> 'a list" where
  "sort_by cmp [] = []"
| "sort_by cmp (x # xs) = insert_by cmp x (sort_by cmp xs)"

section \<open>Schema route: \<^verbatim>\<open>src/app/api/models/[modelId]/route.ts\<close>\<close>

subsection \<open>Tables\<close>

definition CACHE_TTL :: int where
  "CACHE_TTL = 10 * 60 * 1000"

definition IMAGE_INPUT_PATTERNS :: "string list" where
  "IMAGE_INPUT_PATTERNS =
     [''image_url'', ''image'', ''first_frame'', ''last_frame'', ''tail_image_url'',
      ''start_image'', ''end_image'', ''reference_image'', ''init_image'', ''mask_image'',
      ''control_image'']"

definition TEXT_INPUT_NAMES :: "string list" where
  "TEXT_INPUT_NAMES = [''prompt'', ''negative_prompt'']"

definition EXCLUDED_PARAMS :: "string list" where
  "EXCLUDED_PARAMS =
     [''webhook'', ''webhook_events_filter'', ''sync_mode'', ''disable_safety_checker'',
      ''go_fast'', ''enable_safety_checker'', ''output_format'', ''output_quality'',
      ''request_id'']"

definition PRIORITY_PARAMS :: "string list" where
  "PRIORITY_PARAMS =
     [''seed'', ''num_inference_steps'', ''inference_steps'', ''steps'', ''guidance_scale'',
      ''guidance'', ''negative_prompt'', ''width'', ''height'', ''num_outputs'',
      ''num_images'', ''scheduler'', ''strength'', ''cfg_scale'', ''lora_scale'']"

subsection \<open>Data model\<close>

datatype param_type = TString | TInteger | TNumber | TBoolean | TArray

record ModelParameter =
  param_name :: string
  param_type :: param_type
  param_description :: "json option"
  param_default :: "json option"
  param_required :: bool
  param_minimum :: "real option"
  param_maximum :: "real option"
  param_enum :: "json list option"

datatype input_type = ImageInput | TextInput

record ModelInput =
  input_name :: string
  input_type :: input_type
  input_required :: bool
  input_label :: string
  input_description :: "json option"

record ExtractedSchema =
  parameters :: "ModelParameter list"
  inputs :: "ModelInput list"

subsection \<open>Name classification\<close>

definition isImageInput :: "string \<Rightarrow> bool" where
  "isImageInput name =
     list_ex (\<lambda>pattern. name = pattern \<or> suffix (''_'' @ pattern) name \<or> sublist ''image'' name)
       IMAGE_INPUT_PATTERNS"

definition isTextInput :: "string \<Rightarrow> bool" where
  "isTextInput name = (name \<in> set TEXT_INPUT_NAMES)"

text \<open>
  \<^verbatim>\<open>toLabel\<close>: drop a final \<^verbatim>\<open>_url\<close>, turn every underscore into a space, and upper-case
  each word character that follows a non-word character or starts the string.
\<close>

definition is_word_char :: "char \<Rightarrow> bool" where
  "is_word_char c =
     (let n = (of_char c :: nat) in
      (48 \<le> n \<and> n \<le> 57) \<or> (65 \<le> n \<and> n \<le> 90) \<or> (97 \<le> n \<and> n \<le> 122) \<or> n = 95)"

fun capitalize_words :: "bool \<Rightarrow> string \<Rightarrow> string" where
  "capitalize_words prev_word [] = []"
| "capitalize_words prev_word (c # cs) =
     (if is_word_char c \<and> \<not> prev_word then upper_char c else c)
       # capitalize_words (is_word_char c) cs"

definition toLabel :: "string \<Rightarrow> string" where
  "toLabel name =
     (let s1 = (if suffix ''_url'' name then take (length name - 4) name else name);
          s2 = map (\<lambda>c. if c = CHR ''_'' then CHR '' '' else c) s1
      in capitalize_words False s2)"

subsection \<open>Reference resolution\<close>

text \<open>
  The pattern \<^verbatim>\<open>^#\/components\/schemas\/(.+)$\<close>: the prefix, then at least one character,
  none of them a line terminator.
\<close>

definition ref_schema_name :: "string \<Rightarrow> string option" where
  "ref_schema_name ref =
     (let pre = ''#/components/schemas/''; rest = drop (length pre) ref in
      if prefix pre ref \<and> rest \<noteq> [] \<and> CHR 0x0A \<notin> set rest \<and> CHR 0x0D \<notin> set rest
      then Some rest else None)"

definition resolveRef :: "string \<Rightarrow> json \<Rightarrow> json option" where
  "resolveRef ref schemaComponents =
     (case ref_schema_name ref of
        None \<Rightarrow> None
      | Some schemaName \<Rightarrow>
          (case field schemaComponents schemaName of
             None \<Rightarrow> None
           | Some resolved \<Rightarrow> if truthy resolved then Some resolved else None))"

subsection \<open>Converting one property: \<^verbatim>\<open>convertSchemaProperty\<close>\<close>

text \<open>\<^verbatim>\<open>Array.isArray(v.k)\<close> and \<^verbatim>\<open>typeof v.k === "number"\<close> as typed reads.\<close>

definition array_field :: "json \<Rightarrow> string \<Rightarrow> json list option" where
  "array_field j k = (case field j k of Some (JArr xs) \<Rightarrow> Some xs | _ \<Rightarrow> None)"

definition number_field :: "json \<Rightarrow> string \<Rightarrow> real option" where
  "number_field j k = (case field j k of Some (JNum n) \<Rightarrow> Some n | _ \<Rightarrow> None)"

text \<open>\<^verbatim>\<open>const itemRef = item.$ref as string | undefined; if (itemRef)\<close>: a non-empty string.\<close>

definition item_ref :: "json \<Rightarrow> string option" where
  "item_ref item =
     (case field item ''$ref'' of
        Some (JStr s) \<Rightarrow> if s \<noteq> [] then Some s else None
      | _ \<Rightarrow> None)"

text \<open>The four variables the \<^verbatim>\<open>allOf\<close> loop assigns.\<close>

record ref_acc =
  acc_type :: param_type
  acc_enumValues :: "json list option"
  acc_resolvedDefault :: "json option"
  acc_resolvedDescription :: "json option"

definition apply_resolved :: "json \<Rightarrow> ref_acc \<Rightarrow> ref_acc" where
  "apply_resolved resolved acc =
     \<lparr> acc_type =
         (if field resolved ''type'' = Some (JStr ''integer'') then TInteger
          else if field resolved ''type'' = Some (JStr ''number'') then TNumber
          else if field resolved ''type'' = Some (JStr ''boolean'') then TBoolean
          else acc_type acc),
       acc_enumValues =
         (case array_field resolved ''enum'' of
            Some xs \<Rightarrow> Some xs
          | None \<Rightarrow> acc_enumValues acc),
       acc_resolvedDefault =
         (if field resolved ''default'' \<noteq> None \<and> acc_resolvedDefault acc = None
          then field resolved ''default'' else acc_resolvedDefault acc),
       acc_resolvedDescription =
         (if truthy_opt (field resolved ''description'')
             \<and> \<not> truthy_opt (acc_resolvedDescription acc)
          then field resolved ''description'' else acc_resolvedDescription acc) \<rparr>"

definition allOf_step :: "json \<Rightarrow> json \<Rightarrow> ref_acc \<Rightarrow> ref_acc" where
  "allOf_step schemaComponents item acc =
     (case item_ref item of
        Some itemRef \<Rightarrow>
          (case resolveRef itemRef schemaComponents of
             Some resolved \<Rightarrow> apply_resolved resolved acc
           | None \<Rightarrow> acc)
      | None \<Rightarrow>
          (case array_field item ''enum'' of
             Some xs \<Rightarrow> acc\<lparr>acc_enumValues := Some xs\<rparr>
           | None \<Rightarrow> acc))"

fun allOf_loop :: "json \<Rightarrow> json list \<Rightarrow> ref_acc \<Rightarrow> ref_acc" where
  "allOf_loop schemaComponents [] acc = acc"
| "allOf_loop schemaComponents (item # items) acc =
     allOf_loop schemaComponents items (allOf_step schemaComponents item acc)"

definition init_acc :: ref_acc where
  "init_acc = \<lparr> acc_type = TString, acc_enumValues = None, acc_resolvedDefault = None,
                acc_resolvedDescription = None \<rparr>"

definition determine_type :: "json \<Rightarrow> json option \<Rightarrow> ref_acc" where
  "determine_type prop schemaComponents =
     (let schemaType = field prop ''type''; allOf = array_field prop ''allOf'' in
      if schemaType = Some (JStr ''integer'') then init_acc\<lparr>acc_type := TInteger\<rparr>
      else if schemaType = Some (JStr ''number'') then init_acc\<lparr>acc_type := TNumber\<rparr>
      else if schemaType = Some (JStr ''boolean'') then init_acc\<lparr>acc_type := TBoolean\<rparr>
      else if schemaType = Some (JStr ''array'') then init_acc\<lparr>acc_type := TArray\<rparr>
      else
        (case (allOf, schemaComponents) of
           (Some (item # items), Some comps) \<Rightarrow>
             if truthy comps then allOf_loop comps (item # items) init_acc else init_acc
         | _ \<Rightarrow> init_acc))"

definition convertSchemaProperty ::
  "string \<Rightarrow> json \<Rightarrow> string list \<Rightarrow> json option \<Rightarrow> ModelParameter option" where
  "convertSchemaProperty name prop required schemaComponents =
     (if name \<in> set EXCLUDED_PARAMS then None
      else
        let acc = determine_type prop schemaComponents in
        Some \<lparr> param_name = name,
               param_type = acc_type acc,
               param_description = js_or (field prop ''description'') (acc_resolvedDescription acc),
               param_default =
                 (case field prop ''default'' of
                    Some v \<Rightarrow> Some v
                  | None \<Rightarrow> acc_resolvedDefault acc),
               param_required = (name \<in> set required),
               param_minimum = number_field prop ''minimum'',
               param_maximum = number_field prop ''maximum'',
               param_enum =
                 (case array_field prop ''enum'' of
                    Some xs \<Rightarrow> Some xs
                  | None \<Rightarrow> acc_enumValues acc) \<rparr>)"

subsection \<open>What the \<^verbatim>\<open>allOf\<close> loop sees, in encounter order\<close>

text \<open>
  The vocabulary of the merge's description: the definitions the references of the items
  resolve to, the scalar type a definition supplies, the enum lists the items supply (a
  resolved definition's, or the item's own when it has no reference), and the first and
  the last element of a list.
\<close>

definition resolved_definitions :: "json \<Rightarrow> json list \<Rightarrow> json list" where
  "resolved_definitions schemaComponents items =
     List.map_filter
       (\<lambda>item. case item_ref item of
                  Some itemRef \<Rightarrow> resolveRef itemRef schemaComponents
                | None \<Rightarrow> None)
       items"

definition scalar_type_of :: "json \<Rightarrow> param_type option" where
  "scalar_type_of resolved =
     (if field resolved ''type'' = Some (JStr ''integer'') then Some TInteger
      else if field resolved ''type'' = Some (JStr ''number'') then Some TNumber
      else if field resolved ''type'' = Some (JStr ''boolean'') then Some TBoolean
      else None)"

definition supplied_enums :: "json \<Rightarrow> json list \<Rightarrow> json list list" where
  "supplied_enums schemaComponents items =
     List.map_filter
       (\<lambda>item. case item_ref item of
                  Some itemRef \<Rightarrow>
                    (case resolveRef itemRef schemaComponents of
                       Some resolved \<Rightarrow> array_field resolved ''enum''
                     | None \<Rightarrow> None)
                | None \<Rightarrow> array_field item ''enum'')
       items"

definition first_of :: "'a list \<Rightarrow> 'a option" where
  "first_of xs = (case xs of [] \<Rightarrow> None | x # _ \<Rightarrow> Some x)"

definition last_of :: "'a list \<Rightarrow> 'a option" where
  "last_of xs = (if xs = [] then None else Some (last xs))"

subsection \<open>Extraction: \<^verbatim>\<open>extractParametersFromSchema\<close>\<close>

definition mk_input :: "string \<Rightarrow> input_type \<Rightarrow> json \<Rightarrow> string list \<Rightarrow> ModelInput" where
  "mk_input name ty prop required =
     \<lparr> input_name = name, input_type = ty, input_required = (name \<in> set required),
       input_label = toLabel name, input_description = field prop ''description'' \<rparr>"

text \<open>
  The loop over \<^verbatim>\<open>Object.entries(properties)\<close>: each entry is pushed onto \<^verbatim>\<open>inputs\<close>,
  pushed onto \<^verbatim>\<open>parameters\<close>, or dropped; both lists keep the entries' order.
\<close>

fun classify_entries ::
  "string list \<Rightarrow> json option \<Rightarrow> (string \<times> json) list \<Rightarrow> ExtractedSchema" where
  "classify_entries required schemaComponents [] = \<lparr> parameters = [], inputs = [] \<rparr>"
| "classify_entries required schemaComponents ((name, prop) # rest) =
     (let r = classify_entries required schemaComponents rest in
      if isImageInput name then r\<lparr>inputs := mk_input name ImageInput prop required # inputs r\<rparr>
      else if isTextInput name then r\<lparr>inputs := mk_input name TextInput prop required # inputs r\<rparr>
      else
        (case convertSchemaProperty name prop required schemaComponents of
           Some param \<Rightarrow> r\<lparr>parameters := param # parameters r\<rparr>
         | None \<Rightarrow> r))"

definition compareParameters ::
  "(string \<Rightarrow> string \<Rightarrow> int) \<Rightarrow> ModelParameter \<Rightarrow> ModelParameter \<Rightarrow> int" where
  "compareParameters localeCompare a b =
     (let aIsPriority = (param_name a \<in> set PRIORITY_PARAMS);
          bIsPriority = (param_name b \<in> set PRIORITY_PARAMS) in
      if aIsPriority \<and> \<not> bIsPriority then - 1
      else if \<not> aIsPriority \<and> bIsPriority then 1
      else localeCompare (param_name a) (param_name b))"

definition compareInputs ::
  "(string \<Rightarrow> string \<Rightarrow> int) \<Rightarrow> ModelInput \<Rightarrow> ModelInput \<Rightarrow> int" where
  "compareInputs localeCompare a b =
     (if input_required a \<noteq> input_required b then (if input_required a then - 1 else 1)
      else if input_type a \<noteq> input_type b then (if input_type a = ImageInput then - 1 else 1)
      else localeCompare (input_name a) (input_name b))"

text \<open>\<^verbatim>\<open>(schema.required as string[]) || []\<close>, read as the list of its strings.\<close>

definition required_names :: "json \<Rightarrow> string list" where
  "required_names schema =
     (case field schema ''required'' of
        Some (JArr xs) \<Rightarrow> concat (map (\<lambda>x. case x of JStr s \<Rightarrow> [s] | _ \<Rightarrow> []) xs)
      | _ \<Rightarrow> [])"

definition extractParametersFromSchema ::
  "(string \<Rightarrow> string \<Rightarrow> int) \<Rightarrow> json \<Rightarrow> json option \<Rightarrow> ExtractedSchema" where
  "extractParametersFromSchema localeCompare schema schemaComponents =
     (case field schema ''properties'' of
        Some (JObj properties) \<Rightarrow>
          (let r = classify_entries (required_names schema) schemaComponents properties in
           \<lparr> parameters = sort_by (compareParameters localeCompare) (parameters r),
             inputs = sort_by (compareInputs localeCompare) (inputs r) \<rparr>)
      | _ \<Rightarrow> \<lparr> parameters = [], inputs = [] \<rparr>)"

section \<open>Generation route: \<^verbatim>\<open>src/app/api/generate/route.ts\<close>\<close>

subsection \<open>The platform and the network\<close>

text \<open>
  Conversions the JavaScript platform supplies are parameters of the model: the string
  conversion of a template literal (applied to values that are not strings already),
  \<^verbatim>\<open>JSON.stringify\<close>, and the base64 encoding of a buffer.
\<close>

record platform =
  to_string :: "json \<Rightarrow> string"
  stringify :: "json \<Rightarrow> string"
  base64 :: "string \<Rightarrow> string"

definition display :: "platform \<Rightarrow> json \<Rightarrow> string" where
  "display pf v = (case v of JStr s \<Rightarrow> s | _ \<Rightarrow> to_string pf v)"

text \<open>
  A thrown value, as the handler's \<^verbatim>\<open>catch\<close> block reads it: the message when the value is
  an \<^verbatim>\<open>Error\<close>, and the details the block compiles from its stack, cause and status.
\<close>

record thrown =
  thrown_message :: "string option"
  thrown_details :: string

definition TypeError :: thrown where
  "TypeError = \<lparr> thrown_message = Some ''TypeError'', thrown_details = [] \<rparr>"

text \<open>
  A response of \<^verbatim>\<open>fetch\<close>: its status, its content-type header, its body as text, as
  parsed JSON (\<open>None\<close> when the body is not JSON) and as bytes. A \<^verbatim>\<open>fetch\<close> that rejects
  is \<open>Inl\<close> of the thrown value.
\<close>

record http_response =
  resp_status :: nat
  resp_content_type :: "string option"
  resp_text :: string
  resp_json :: "json option"
  resp_bytes :: string

definition resp_ok :: "http_response \<Rightarrow> bool" where
  "resp_ok r = (200 \<le> resp_status r \<and> resp_status r \<le> 299)"

definition SyntaxError :: thrown where
  "SyntaxError = \<lparr> thrown_message = Some ''SyntaxError'', thrown_details = [] \<rparr>"

text \<open>\<^verbatim>\<open>await response.json()\<close>.\<close>

definition json_of :: "http_response \<Rightarrow> thrown + json" where
  "json_of r = (case resp_json r of None \<Rightarrow> Inl SyntaxError | Some j \<Rightarrow> Inr j)"

text \<open>The decimal rendering of a status code in a template literal.\<close>

function show_nat :: "nat \<Rightarrow> string" where
  "show_nat n =
     (if n < 10 then [char_of (48 + n)]
      else show_nat (n div 10) @ [char_of (48 + n mod 10)])"
  by pat_completeness auto
termination
  by (relation "measure id") auto

declare show_nat.simps [simp del]

text \<open>Optional chaining \<^verbatim>\<open>v?.k\<close> on a possibly absent value.\<close>

definition opt_field :: "json option \<Rightarrow> string \<Rightarrow> json option" where
  "opt_field v k = (case v of None \<Rightarrow> None | Some JNull \<Rightarrow> None | Some j \<Rightarrow> field j k)"

text \<open>
  Assignment \<^verbatim>\<open>obj[k] = v\<close> on an object kept as its entries: an existing key keeps its
  place, a new key goes last. \<^verbatim>\<open>Object.assign\<close> and the spread \<^verbatim>\<open>{...src}\<close> assign the
  entries of the source in order.
\<close>

fun obj_set :: "(string \<times> 'v) list \<Rightarrow> string \<Rightarrow> 'v \<Rightarrow> (string \<times> 'v) list" where
  "obj_set [] k v = [(k, v)]"
| "obj_set ((k', v') # rest) k v =
     (if k' = k then (k, v) # rest else (k', v') # obj_set rest k v)"

fun obj_assign :: "(string \<times> 'v) list \<Rightarrow> (string \<times> 'v) list \<Rightarrow> (string \<times> 'v) list" where
  "obj_assign target [] = target"
| "obj_assign target ((k, v) # rest) = obj_assign (obj_set target k v) rest"

subsection \<open>Data model\<close>

record ProviderModel =
  model_id :: string
  model_name :: string
  model_provider :: string

record GenerationInput =
  gen_model :: ProviderModel
  gen_prompt :: string
  gen_images :: "string list"
  gen_parameters :: "(string \<times> json) list option"
  gen_dynamicInputs :: "(string \<times> json) list option"

datatype media_type = MediaImage | MediaVideo

record media_output =
  out_type :: media_type
  out_data :: string
  out_url :: string

record GenerationOutput =
  gen_success :: bool
  gen_error :: "string option"
  gen_outputs :: "media_output list option"

definition failure :: "string \<Rightarrow> GenerationOutput" where
  "failure msg = \<lparr> gen_success = False, gen_error = Some msg, gen_outputs = None \<rparr>"

definition succeeded :: "media_output \<Rightarrow> GenerationOutput" where
  "succeeded out = \<lparr> gen_success = True, gen_error = None, gen_outputs = Some [out] \<rparr>"

subsection \<open>Input mapping: \<^verbatim>\<open>INPUT_PATTERNS\<close> and \<^verbatim>\<open>getInputMappingFromSchema\<close>\<close>

definition INPUT_PATTERNS :: "(string \<times> string list) list" where
  "INPUT_PATTERNS =
     [(''prompt'', [''prompt'', ''text'', ''caption'', ''input_text'', ''description'', ''query'']),
      (''negativePrompt'', [''negative_prompt'', ''negative'', ''neg_prompt'', ''negative_text'']),
      (''image'', [''image_url'', ''image'', ''first_frame'', ''start_image'', ''init_image'',
                   ''reference_image'', ''input_image'', ''source_image'', ''img'', ''photo'']),
      (''aspectRatio'', [''aspect_ratio'', ''ratio'', ''size'', ''dimensions'', ''output_size'']),
      (''duration'', [''duration'', ''length'', ''num_frames'', ''seconds'', ''video_length'']),
      (''fps'', [''fps'', ''frame_rate'', ''framerate'', ''frames_per_second'']),
      (''audio'', [''audio_enabled'', ''with_audio'', ''enable_audio'', ''audio'', ''sound'']),
      (''seed'', [''seed'', ''random_seed'', ''noise_seed'']),
      (''steps'', [''steps'', ''num_steps'', ''num_inference_steps'', ''inference_steps'']),
      (''guidance'', [''guidance_scale'', ''guidance'', ''cfg_scale'', ''cfg'']),
      (''scheduler'', [''scheduler'', ''sampler'', ''sampler_name'']),
      (''strength'', [''strength'', ''denoise'', ''denoising_strength''])]"

text \<open>The test of \<^verbatim>\<open>propertyNames.find\<close>: containment in either direction, case folded.\<close>

definition partial_match :: "string \<Rightarrow> string \<Rightarrow> bool" where
  "partial_match pattern name =
     (sublist (toLowerCase pattern) (toLowerCase name) \<or>
      sublist (toLowerCase name) (toLowerCase pattern))"

text \<open>
  The inner loop over the candidates of one generic name. For each candidate in turn:
  \<^verbatim>\<open>if (properties[pattern])\<close> takes the candidate itself; otherwise the first property
  name that matches partially is taken when it is a non-empty string (\<^verbatim>\<open>if (match)\<close>);
  otherwise the next candidate is tried.
\<close>

fun match_patterns :: "(string \<times> json) list \<Rightarrow> string list \<Rightarrow> string option" where
  "match_patterns properties [] = None"
| "match_patterns properties (pattern # patterns) =
     (if truthy_opt (map_of properties pattern) then Some pattern
      else
        (case find (partial_match pattern) (map fst properties) of
           Some match \<Rightarrow>
             if match \<noteq> [] then Some match else match_patterns properties patterns
         | None \<Rightarrow> match_patterns properties patterns))"

fun build_paramMap ::
  "(string \<times> json) list \<Rightarrow> (string \<times> string list) list \<Rightarrow> (string \<times> string) list" where
  "build_paramMap properties [] = []"
| "build_paramMap properties ((genericName, patterns) # rest) =
     (case match_patterns properties patterns of
        Some actual \<Rightarrow> (genericName, actual) # build_paramMap properties rest
      | None \<Rightarrow> build_paramMap properties rest)"

text \<open>
  \<^verbatim>\<open>schema.components?.schemas?.Input?.properties\<close>. A value that is truthy and no object
  has only index keys, which no candidate matches: its mapping is empty as well.
\<close>

definition input_properties :: "json \<Rightarrow> json option" where
  "input_properties schema =
     (let components = field schema ''components'';
          schemas = opt_field components ''schemas'';
          input = opt_field schemas ''Input''
      in opt_field input ''properties'')"

definition paramMap_of_schema :: "json \<Rightarrow> (string \<times> string) list" where
  "paramMap_of_schema schema =
     (case input_properties schema of
        Some (JObj properties) \<Rightarrow> build_paramMap properties INPUT_PATTERNS
      | _ \<Rightarrow> [])"

definition getInputMappingFromSchema :: "json option \<Rightarrow> (string \<times> string) list" where
  "getInputMappingFromSchema schema =
     (case schema of
        None \<Rightarrow> []
      | Some s \<Rightarrow> if truthy s then paramMap_of_schema s else [])"

text \<open>\<^verbatim>\<open>paramMap[key] || fallback\<close>.\<close>

definition mapped_or :: "(string \<times> string) list \<Rightarrow> string \<Rightarrow> string \<Rightarrow> string" where
  "mapped_or paramMap key fallback =
     (case map_of paramMap key of
        Some v \<Rightarrow> if v \<noteq> [] then v else fallback
      | None \<Rightarrow> fallback)"

subsection \<open>Replicate adapter: \<^verbatim>\<open>generateWithReplicate\<close>\<close>

text \<open>
  What the provider answers in one run: the model lookup, the creation of the prediction
  (as a function of the request body), the clock reading taken before the polling loop,
  for each iteration of the loop the clock reading of its ceiling check and the answer to
  its status request, and the answer to the request for the media.
\<close>

record replicate_world =
  modelResponse :: "thrown + http_response"
  createResponse :: "json \<Rightarrow> thrown + http_response"
  startTime :: int
  pollScript :: "(int \<times> (thrown + http_response)) list"
  mediaResponse :: "string \<Rightarrow> thrown + http_response"

definition hasDynamicInputs :: "GenerationInput \<Rightarrow> bool" where
  "hasDynamicInputs input =
     (case gen_dynamicInputs input of Some d \<Rightarrow> d \<noteq> [] | None \<Rightarrow> False)"

text \<open>The loop \<^verbatim>\<open>for (const [key, value] of Object.entries(input.parameters))\<close>.\<close>

fun rename_parameters ::
  "(string \<times> string) list \<Rightarrow> (string \<times> json) list \<Rightarrow> (string \<times> json) list
     \<Rightarrow> (string \<times> json) list" where
  "rename_parameters paramMap body [] = body"
| "rename_parameters paramMap body ((key, value) # rest) =
     rename_parameters paramMap (obj_set body (mapped_or paramMap key key) value) rest"

text \<open>
  The fallback branch of both adapters (lines 373 to 402 and 668 to 696, which differ in
  the source of the mapping and in the default name of the image field): the prompt, the
  first image and the renamed parameters are assigned in this order.
\<close>

definition map_generic_inputs ::
  "(string \<times> string) list \<Rightarrow> string \<Rightarrow> GenerationInput \<Rightarrow> (string \<times> json) list
     \<Rightarrow> (string \<times> json) list" where
  "map_generic_inputs paramMap imageDefault input body =
     (let withPrompt =
            (if gen_prompt input \<noteq> []
             then obj_set body (mapped_or paramMap ''prompt'' ''prompt'') (JStr (gen_prompt input))
             else body);
          withImage =
            (case gen_images input of
               [] \<Rightarrow> withPrompt
             | img # _ \<Rightarrow>
                 obj_set withPrompt (mapped_or paramMap ''image'' imageDefault) (JStr img))
      in
      case gen_parameters input of
        Some ps \<Rightarrow> rename_parameters paramMap withImage ps
      | None \<Rightarrow> withImage)"

definition replicate_prediction_input ::
  "json option \<Rightarrow> GenerationInput \<Rightarrow> (string \<times> json) list" where
  "replicate_prediction_input schema input =
     (let predictionInput =
            obj_assign [] (case gen_parameters input of Some ps \<Rightarrow> ps | None \<Rightarrow> [])
      in
      if hasDynamicInputs input then
        obj_assign predictionInput
          (case gen_dynamicInputs input of Some d \<Rightarrow> d | None \<Rightarrow> [])
      else
        map_generic_inputs (getInputMappingFromSchema schema) ''image'' input predictionInput)"

text \<open>\<^verbatim>\<open>a || b\<close> with a right operand that is always there.\<close>

definition js_or_else :: "json option \<Rightarrow> json \<Rightarrow> json" where
  "js_or_else a b = (case a of Some v \<Rightarrow> if truthy v then v else b | None \<Rightarrow> b)"

definition replicate_create_failure ::
  "platform \<Rightarrow> GenerationInput \<Rightarrow> http_response \<Rightarrow> GenerationOutput" where
  "replicate_create_failure pf input r =
     (let errorText = resp_text r;
          errorDetail =
            (case resp_json r of
               None \<Rightarrow> JStr errorText
             | Some errorJson \<Rightarrow>
                 js_or_else (field errorJson ''detail'')
                   (js_or_else (field errorJson ''message'')
                      (js_or_else (field errorJson ''error'') (JStr errorText))))
      in
      if resp_status r = 429
      then failure (model_name (gen_model input) @ '': Rate limit exceeded. Try again in a moment.'')
      else failure (model_name (gen_model input) @ '': '' @ display pf errorDetail))"

definition maxWaitTime :: int where
  "maxWaitTime = 5 * 60 * 1000"

definition is_terminal :: "json \<Rightarrow> bool" where
  "is_terminal prediction =
     (field prediction ''status'' = Some (JStr ''succeeded'') \<or>
      field prediction ''status'' = Some (JStr ''failed'') \<or>
      field prediction ''status'' = Some (JStr ''canceled''))"

text \<open>
  The polling loop. It ends by returning a failure, by throwing, or with the prediction
  that reached a terminal status; the number beside the outcome counts the status
  requests made. A script that ends before the loop does gives \<open>None\<close>: the run is not
  over. Reading \<^verbatim>\<open>status\<close> of a \<^verbatim>\<open>null\<close> prediction throws.
\<close>

datatype poll_outcome =
    Returned GenerationOutput
  | Threw thrown
  | Settled json

definition timeout_message :: "string \<Rightarrow> string" where
  "timeout_message name =
     name @ '': Generation timed out after 5 minutes. Video models may take longer - try again.''"

fun poll_loop ::
  "string \<Rightarrow> int \<Rightarrow> json \<Rightarrow> (int \<times> (thrown + http_response)) list
     \<Rightarrow> (poll_outcome \<times> nat) option" where
  "poll_loop name start currentPrediction script =
     (if currentPrediction = JNull then Some (Threw TypeError, 0)
      else if is_terminal currentPrediction then Some (Settled currentPrediction, 0)
      else
        (case script of
           [] \<Rightarrow> None
         | (now, response) # rest \<Rightarrow>
             if now - start > maxWaitTime
             then Some (Returned (failure (timeout_message name)), 0)
             else
               (case response of
                  Inl e \<Rightarrow> Some (Threw e, 1)
                | Inr pollResponse \<Rightarrow>
                    if \<not> resp_ok pollResponse
                    then Some (Returned (failure (''Failed to poll prediction: ''
                                 @ show_nat (resp_status pollResponse))), 1)
                    else
                      (case json_of pollResponse of
                         Inl e \<Rightarrow> Some (Threw e, 1)
                       | Inr polled \<Rightarrow>
                           (case poll_loop name start polled rest of
                              None \<Rightarrow> None
                            | Some (outcome, n) \<Rightarrow> Some (outcome, Suc n))))))"

declare poll_loop.simps [simp del]

text \<open>The output record of a fetched medium (lines 538 to 578).\<close>

definition replicate_media_output ::
  "platform \<Rightarrow> string \<Rightarrow> http_response \<Rightarrow> GenerationOutput" where
  "replicate_media_output pf mediaUrl fetched =
     (let contentType =
            (case resp_content_type fetched of
               Some c \<Rightarrow> if c \<noteq> [] then c else ''image/png''
             | None \<Rightarrow> ''image/png'');
          isVideo = prefix ''video/'' contentType;
          mediaSizeBytes = length (resp_bytes fetched);
          mediaSizeMB = real mediaSizeBytes / (1024 * 1024)
      in
      if isVideo \<and> mediaSizeMB > 20 then
        succeeded \<lparr> out_type = MediaVideo, out_data = mediaUrl, out_url = mediaUrl \<rparr>
      else
        succeeded
          \<lparr> out_type = (if isVideo then MediaVideo else MediaImage),
            out_data = ''data:'' @ contentType @ '';base64,'' @ base64 pf (resp_bytes fetched),
            out_url = mediaUrl \<rparr>)"

text \<open>The code after the loop: the terminal status, the output, the media request.\<close>

definition replicate_finish ::
  "platform \<Rightarrow> replicate_world \<Rightarrow> GenerationInput \<Rightarrow> json \<Rightarrow> thrown + GenerationOutput" where
  "replicate_finish pf w input currentPrediction =
     (if field currentPrediction ''status'' = Some (JStr ''failed'') then
        Inr (failure (model_name (gen_model input) @ '': '' @
               display pf (js_or_else (field currentPrediction ''error'')
                             (JStr ''Prediction failed''))))
      else if field currentPrediction ''status'' = Some (JStr ''canceled'') then
        Inr (failure ''Prediction was canceled'')
      else if \<not> truthy_opt (field currentPrediction ''output'') then
        Inr (failure ''No output from prediction'')
      else
        (case (case field currentPrediction ''output'' of
                 Some (JArr urls) \<Rightarrow> urls
               | Some output \<Rightarrow> [output]
               | None \<Rightarrow> []) of
           [] \<Rightarrow> Inr (failure ''No output from prediction'')
         | first # _ \<Rightarrow>
             (let mediaUrl = display pf first in
              case mediaResponse w mediaUrl of
                Inl e \<Rightarrow> Inl e
              | Inr r \<Rightarrow>
                  if \<not> resp_ok r
                  then Inr (failure (''Failed to fetch output: '' @ show_nat (resp_status r)))
                  else Inr (replicate_media_output pf mediaUrl r))))"

text \<open>
  The requests before the loop (lines 334 to 448): the function returns early, throws, or
  goes on with the created prediction.
\<close>

definition replicate_create ::
  "platform \<Rightarrow> replicate_world \<Rightarrow> GenerationInput \<Rightarrow> thrown + (GenerationOutput + json)" where
  "replicate_create pf w input =
     (case modelResponse w of
        Inl e \<Rightarrow> Inl e
      | Inr mr \<Rightarrow>
          if \<not> resp_ok mr
          then Inr (Inl (failure (''Failed to get model info: '' @ show_nat (resp_status mr))))
          else
            (case json_of mr of
               Inl e \<Rightarrow> Inl e
             | Inr modelData \<Rightarrow>
                 if modelData = JNull then Inl TypeError
                 else
                   (let latest = field modelData ''latest_version'';
                        version = opt_field latest ''id'' in
                    if \<not> truthy_opt version
                    then Inr (Inl (failure ''Model has no available version''))
                    else
                      (let predictionInput =
                             replicate_prediction_input (opt_field latest ''openapi_schema'') input;
                           body = JObj [(''version'', js_or_else version JNull),
                                        (''input'', JObj predictionInput)] in
                       case createResponse w body of
                         Inl e \<Rightarrow> Inl e
                       | Inr cr \<Rightarrow>
                           if \<not> resp_ok cr
                           then Inr (Inl (replicate_create_failure pf input cr))
                           else
                             (case json_of cr of
                                Inl e \<Rightarrow> Inl e
                              | Inr prediction \<Rightarrow> Inr (Inr prediction))))))"

definition generateWithReplicate ::
  "platform \<Rightarrow> replicate_world \<Rightarrow> GenerationInput \<Rightarrow> (thrown + GenerationOutput) option" where
  "generateWithReplicate pf w input =
     (case replicate_create pf w input of
        Inl e \<Rightarrow> Some (Inl e)
      | Inr (Inl early) \<Rightarrow> Some (Inr early)
      | Inr (Inr prediction) \<Rightarrow>
          (case poll_loop (model_name (gen_model input)) (startTime w) prediction
                  (pollScript w) of
             None \<Rightarrow> None
           | Some (Threw e, n) \<Rightarrow> Some (Inl e)
           | Some (Returned out, n) \<Rightarrow> Some (Inr out)
           | Some (Settled final, n) \<Rightarrow> Some (replicate_finish pf w input final)))"

text \<open>
  An iteration of the loop that leaves the job pending: the ceiling has not elapsed at its
  check, and its status request is answered (ok, with a JSON body) by a prediction whose
  status is not terminal.
\<close>

definition pending_poll :: "int \<Rightarrow> int \<times> (thrown + http_response) \<Rightarrow> bool" where
  "pending_poll start ev =
     (fst ev - start \<le> maxWaitTime \<and>
      (case snd ev of
         Inl e \<Rightarrow> False
       | Inr r \<Rightarrow>
           resp_ok r \<and>
           (case resp_json r of
              None \<Rightarrow> False
            | Some polled \<Rightarrow> polled \<noteq> JNull \<and> \<not> is_terminal polled)))"

subsection \<open>fal adapter: \<^verbatim>\<open>getFalInputMapping\<close> and \<^verbatim>\<open>generateWithFal\<close>\<close>

record fal_world =
  falSchemaResponse :: "thrown + http_response"
  falResponse :: "json \<Rightarrow> thrown + http_response"
  falMediaResponse :: "string \<Rightarrow> thrown + http_response"

text \<open>
  \<^verbatim>\<open>getFalInputMapping\<close>: every failure inside its \<^verbatim>\<open>try\<close> block, a \<^verbatim>\<open>null\<close> document
  included, leaves the mapping empty; the loops are those of \<open>build_paramMap\<close>.
\<close>

definition getFalInputMapping :: "thrown + http_response \<Rightarrow> (string \<times> string) list" where
  "getFalInputMapping schemaResponse =
     (case schemaResponse of
        Inl e \<Rightarrow> []
      | Inr r \<Rightarrow>
          if \<not> resp_ok r then []
          else
            (case resp_json r of
               None \<Rightarrow> []
             | Some schema \<Rightarrow> if schema = JNull then [] else paramMap_of_schema schema))"

definition is_empty_input :: "json \<Rightarrow> bool" where
  "is_empty_input value = (value = JNull \<or> value = JStr [])"

definition fal_request_body ::
  "thrown + http_response \<Rightarrow> GenerationInput \<Rightarrow> (string \<times> json) list" where
  "fal_request_body schemaResponse input =
     (let requestBody =
            obj_assign [] (case gen_parameters input of Some ps \<Rightarrow> ps | None \<Rightarrow> [])
      in
      if hasDynamicInputs input then
        (let filteredInputs =
               obj_assign []
                 (filter (\<lambda>(key, value). \<not> is_empty_input value)
                    (case gen_dynamicInputs input of Some d \<Rightarrow> d | None \<Rightarrow> []))
         in obj_assign requestBody filteredInputs)
      else
        map_generic_inputs (getFalInputMapping schemaResponse) ''image_url'' input requestBody)"

text \<open>\<^verbatim>\<open>pieces.join(sep)\<close>.\<close>

fun join :: "string \<Rightarrow> string list \<Rightarrow> string" where
  "join sep [] = []"
| "join sep [x] = x"
| "join sep (x # y # rest) = x @ sep @ join sep (y # rest)"

text \<open>
  The error detail of a response that is not ok. Inside the \<^verbatim>\<open>try\<close> block a thrown
  \<^verbatim>\<open>TypeError\<close> (a \<^verbatim>\<open>null\<close> document, a \<^verbatim>\<open>null\<close> entry of \<^verbatim>\<open>detail\<close>) keeps the text.
\<close>

definition fal_error_detail :: "platform \<Rightarrow> http_response \<Rightarrow> string" where
  "fal_error_detail pf r =
     (let errorText = resp_text r;
          original = (if errorText \<noteq> [] then errorText else ''HTTP '' @ show_nat (resp_status r))
      in
      case resp_json r of
        None \<Rightarrow> original
      | Some errorJson \<Rightarrow>
          if errorJson = JNull then original
          else if truthy_opt (opt_field (field errorJson ''error'') ''message'') then
            display pf (js_or_else (opt_field (field errorJson ''error'') ''message'') JNull)
          else if truthy_opt (field errorJson ''detail'') then
            (case field errorJson ''detail'' of
               Some (JArr ds) \<Rightarrow>
                 if JNull \<in> set ds then original
                 else join ''; ''
                        (map (\<lambda>d. if truthy_opt (field d ''msg'')
                                   then display pf (js_or_else (field d ''msg'') JNull)
                                   else stringify pf d) ds)
             | Some detail \<Rightarrow> display pf detail
             | None \<Rightarrow> original)
          else if truthy_opt (field errorJson ''message'') then
            display pf (js_or_else (field errorJson ''message'') JNull)
          else
            (case field errorJson ''error'' of
               Some (JStr s) \<Rightarrow> s
             | _ \<Rightarrow> original))"

definition fal_failure ::
  "platform \<Rightarrow> string option \<Rightarrow> GenerationInput \<Rightarrow> http_response \<Rightarrow> GenerationOutput" where
  "fal_failure pf apiKey input r =
     (if resp_status r = 429 then
        failure (model_name (gen_model input) @ '': Rate limit exceeded. '' @
          (if apiKey \<noteq> None \<and> apiKey \<noteq> Some []
           then ''Try again in a moment.''
           else ''Add an API key in settings for higher limits.''))
      else failure (model_name (gen_model input) @ '': '' @ fal_error_detail pf r))"

text \<open>
  Where the media URL is in the result, and whether it was found under \<^verbatim>\<open>video\<close>. Reading
  \<^verbatim>\<open>url\<close> of a \<^verbatim>\<open>null\<close> first image throws.
\<close>

definition fal_media_url :: "json \<Rightarrow> thrown + (json option \<times> bool)" where
  "fal_media_url result =
     (if truthy_opt (field result ''video'')
         \<and> truthy_opt (opt_field (field result ''video'') ''url'')
      then Inr (opt_field (field result ''video'') ''url'', True)
      else
        (case field result ''images'' of
           Some (JArr (first # rest)) \<Rightarrow>
             if first = JNull then Inl TypeError else Inr (field first ''url'', False)
         | _ \<Rightarrow>
             if truthy_opt (field result ''image'')
                \<and> truthy_opt (opt_field (field result ''image'') ''url'')
             then Inr (opt_field (field result ''image'') ''url'', False)
             else
               (case field result ''output'' of
                  Some (JStr s) \<Rightarrow> if s \<noteq> [] then Inr (Some (JStr s), False) else Inr (None, False)
                | _ \<Rightarrow> Inr (None, False))))"

text \<open>The output record of a fetched medium (lines 812 to 852).\<close>

definition fal_media_output ::
  "platform \<Rightarrow> bool \<Rightarrow> string \<Rightarrow> http_response \<Rightarrow> GenerationOutput" where
  "fal_media_output pf isVideoModel mediaUrl fetched =
     (let contentType =
            (case resp_content_type fetched of
               Some c \<Rightarrow>
                 if c \<noteq> [] then c else (if isVideoModel then ''video/mp4'' else ''image/png'')
             | None \<Rightarrow> (if isVideoModel then ''video/mp4'' else ''image/png''));
          isVideo = (prefix ''video/'' contentType \<or> isVideoModel);
          mediaSizeBytes = length (resp_bytes fetched);
          mediaSizeMB = real mediaSizeBytes / (1024 * 1024)
      in
      if isVideo \<and> mediaSizeMB > 20 then
        succeeded \<lparr> out_type = MediaVideo, out_data = mediaUrl, out_url = mediaUrl \<rparr>
      else
        succeeded
          \<lparr> out_type = (if isVideo then MediaVideo else MediaImage),
            out_data = ''data:'' @ contentType @ '';base64,'' @ base64 pf (resp_bytes fetched),
            out_url = mediaUrl \<rparr>)"

definition generateWithFal ::
  "platform \<Rightarrow> fal_world \<Rightarrow> string option \<Rightarrow> GenerationInput \<Rightarrow> thrown + GenerationOutput" where
  "generateWithFal pf w apiKey input =
     (let requestBody = fal_request_body (falSchemaResponse w) input in
      case falResponse w (JObj requestBody) of
        Inl e \<Rightarrow> Inl e
      | Inr response \<Rightarrow>
          if \<not> resp_ok response then Inr (fal_failure pf apiKey input response)
          else
            (case json_of response of
               Inl e \<Rightarrow> Inl e
             | Inr result \<Rightarrow>
                 if result = JNull then Inl TypeError
                 else
                   (case fal_media_url result of
                      Inl e \<Rightarrow> Inl e
                    | Inr (url, isVideoModel) \<Rightarrow>
                        if \<not> truthy_opt url then Inr (failure ''No media URL in response'')
                        else
                          (let mediaUrl = display pf (js_or_else url JNull) in
                           case falMediaResponse w mediaUrl of
                             Inl e \<Rightarrow> Inl e
                           | Inr r \<Rightarrow>
                               if \<not> resp_ok r
                               then Inr (failure (''Failed to fetch output: ''
                                      @ show_nat (resp_status r)))
                               else Inr (fal_media_output pf isVideoModel mediaUrl r)))))"

subsection \<open>Gemini adapter: the response handling of \<^verbatim>\<open>generateWithGemini\<close>\<close>

record GenerateResponse =
  res_success :: bool
  res_image :: "string option"
  res_video :: "string option"
  res_videoUrl :: "string option"
  res_contentType :: "string option"
  res_error :: "string option"

text \<open>A reply of the handler: the HTTP status and the JSON body.\<close>

type_synonym reply = "nat \<times> GenerateResponse"

definition error_reply :: "nat \<Rightarrow> string \<Rightarrow> reply" where
  "error_reply status msg =
     (status, \<lparr> res_success = False, res_image = None, res_video = None, res_videoUrl = None,
                res_contentType = None, res_error = Some msg \<rparr>)"

definition image_reply :: "string \<Rightarrow> string option \<Rightarrow> reply" where
  "image_reply img contentType =
     (200, \<lparr> res_success = True, res_image = Some img, res_video = None, res_videoUrl = None,
             res_contentType = contentType, res_error = None \<rparr>)"

record inline_data =
  inline_mimeType :: "string option"
  inline_data :: "string option"

record gemini_part =
  part_inlineData :: "inline_data option"
  part_text :: "string option"

text \<open>
  The SDK's answer: the candidates, each with the parts of its content when it has any.
  The request the function builds before the call decides nothing after it.
\<close>

type_synonym gemini_response = "gemini_part list option list option"

definition has_image :: "gemini_part \<Rightarrow> bool" where
  "has_image part =
     (case part_inlineData part of
        Some d \<Rightarrow> inline_data d \<noteq> None \<and> inline_data d \<noteq> Some []
      | None \<Rightarrow> False)"

definition image_data_url :: "gemini_part \<Rightarrow> string" where
  "image_data_url part =
     (case part_inlineData part of
        Some d \<Rightarrow>
          ''data:'' @
          (case inline_mimeType d of
             Some m \<Rightarrow> if m \<noteq> [] then m else ''image/png''
           | None \<Rightarrow> ''image/png'') @
          '';base64,'' @ (case inline_data d of Some x \<Rightarrow> x | None \<Rightarrow> [])
      | None \<Rightarrow> [])"

definition has_text :: "gemini_part \<Rightarrow> bool" where
  "has_text part = (part_text part \<noteq> None \<and> part_text part \<noteq> Some [])"

definition generateWithGemini :: "thrown + gemini_response \<Rightarrow> thrown + reply" where
  "generateWithGemini sdk =
     (case sdk of
        Inl e \<Rightarrow> Inl e
      | Inr candidates \<Rightarrow>
          (case candidates of
             None \<Rightarrow> Inr (error_reply 500 ''No response from AI model'')
           | Some [] \<Rightarrow> Inr (error_reply 500 ''No response from AI model'')
           | Some (None # _) \<Rightarrow> Inr (error_reply 500 ''No content in response'')
           | Some (Some parts # _) \<Rightarrow>
               (case find has_image parts of
                  Some part \<Rightarrow> Inr (image_reply (image_data_url part) None)
                | None \<Rightarrow>
                    (case find has_text parts of
                       Some part \<Rightarrow>
                         Inr (error_reply 500 (''Model returned text instead of image: '' @
                                take 200 (case part_text part of Some t \<Rightarrow> t | None \<Rightarrow> [])))
                     | None \<Rightarrow> Inr (error_reply 500 ''No image in response'')))))"

subsection \<open>The handler: \<^verbatim>\<open>POST\<close>\<close>

record SelectedModel =
  sel_provider :: "string option"
  sel_modelId :: string
  sel_displayName :: string

record GenerateRequest =
  req_images :: "string list option"
  req_prompt :: "string option"
  req_selectedModel :: "SelectedModel option"
  req_parameters :: "(string \<times> json) list option"
  req_dynamicInputs :: "(string \<times> json) list option"

text \<open>
  One request and what the outside answers to it: the parsed body (\<^verbatim>\<open>request.json()\<close> may
  throw), the credential headers and the environment's key, and each provider's answers.
\<close>

record generate_world =
  requestBody :: "thrown + GenerateRequest"
  header_replicate_key :: "string option"
  header_fal_key :: "string option"
  header_gemini_key :: "string option"
  env_gemini_key :: "string option"
  replicate_answers :: replicate_world
  fal_answers :: fal_world
  gemini_answer :: "thrown + gemini_response"

definition present :: "string option \<Rightarrow> bool" where
  "present s = (s \<noteq> None \<and> s \<noteq> Some [])"

definition validation_passes :: "GenerateRequest \<Rightarrow> bool" where
  "validation_passes body =
     (let hasPrompt =
            (present (req_prompt body) \<or>
             (case req_dynamicInputs body of
                Some d \<Rightarrow> truthy_opt (map_of d ''prompt'')
              | None \<Rightarrow> False));
          hasImages = (case req_images body of Some (x # xs) \<Rightarrow> True | _ \<Rightarrow> False);
          hasImageInputs =
            (case req_dynamicInputs body of
               Some d \<Rightarrow> list_ex (\<lambda>key. sublist ''frame'' key \<or> sublist ''image'' key) (map fst d)
             | None \<Rightarrow> False)
      in hasPrompt \<or> hasImages \<or> hasImageInputs)"

text \<open>The loop that drops the empty dynamic inputs (the same in both provider branches).\<close>

definition process_dynamic_inputs ::
  "(string \<times> json) list option \<Rightarrow> (string \<times> json) list option" where
  "process_dynamic_inputs dynamicInputs =
     (case dynamicInputs of
        None \<Rightarrow> None
      | Some d \<Rightarrow> Some (obj_assign [] (filter (\<lambda>(key, value). \<not> is_empty_input value) d)))"

definition build_input :: "string \<Rightarrow> SelectedModel \<Rightarrow> GenerateRequest \<Rightarrow> GenerationInput" where
  "build_input provider selected body =
     \<lparr> gen_model = \<lparr> model_id = sel_modelId selected, model_name = sel_displayName selected,
                     model_provider = provider \<rparr>,
       gen_prompt = (case req_prompt body of Some p \<Rightarrow> p | None \<Rightarrow> []),
       gen_images = (case req_images body of Some xs \<Rightarrow> xs | None \<Rightarrow> []),
       gen_parameters = req_parameters body,
       gen_dynamicInputs = process_dynamic_inputs (req_dynamicInputs body) \<rparr>"

text \<open>
  The reply built from an adapter's result (lines 963 to 1001 for Replicate, the same text
  at lines 1058 to 1096 for fal).
\<close>

definition adapter_reply :: "GenerationOutput \<Rightarrow> reply" where
  "adapter_reply result =
     (if \<not> gen_success result then
        error_reply 500
          (case gen_error result of
             Some e \<Rightarrow> if e \<noteq> [] then e else ''Generation failed''
           | None \<Rightarrow> ''Generation failed'')
      else
        (case gen_outputs result of
           Some (output # _) \<Rightarrow>
             if out_data output = [] then error_reply 500 ''No output in generation result''
             else if out_type output = MediaVideo then
               (let isUrl = prefix ''http'' (out_data output) in
                (200, \<lparr> res_success = True, res_image = None,
                        res_video = (if isUrl then None else Some (out_data output)),
                        res_videoUrl = (if isUrl then Some (out_data output) else None),
                        res_contentType = Some ''video'', res_error = None \<rparr>))
             else image_reply (out_data output) (Some ''image'')
         | _ \<Rightarrow> error_reply 500 ''No output in generation result''))"

text \<open>The \<^verbatim>\<open>catch\<close> block.\<close>

definition catch_reply :: "thrown \<Rightarrow> reply" where
  "catch_reply e =
     (let errorMessage = (case thrown_message e of Some m \<Rightarrow> m | None \<Rightarrow> ''Generation failed'');
          errorDetails = thrown_details e
      in
      if sublist ''429'' errorMessage
      then error_reply 429 ''Rate limit reached. Please wait and try again.''
      else error_reply 500
             (errorMessage @
              (if errorDetails \<noteq> [] then '' | Details: '' @ take 500 errorDetails else [])))"

definition handle :: "thrown + reply \<Rightarrow> reply" where
  "handle r = (case r of Inl e \<Rightarrow> catch_reply e | Inr ok \<Rightarrow> ok)"

text \<open>
  The handler. \<open>None\<close> is a run of the Replicate polling loop that the world's script
  does not bring to its end.
\<close>

definition POST :: "platform \<Rightarrow> generate_world \<Rightarrow> reply option" where
  "POST pf w =
     (case requestBody w of
        Inl e \<Rightarrow> Some (catch_reply e)
      | Inr body \<Rightarrow>
          if \<not> validation_passes body
          then Some (error_reply 400 ''Prompt or image input is required'')
          else
            (let provider =
                   (case req_selectedModel body of
                      Some m \<Rightarrow>
                        (case sel_provider m of
                           Some p \<Rightarrow> if p \<noteq> [] then p else ''gemini''
                         | None \<Rightarrow> ''gemini'')
                    | None \<Rightarrow> ''gemini'')
             in
             case req_selectedModel body of
               None \<Rightarrow>
                 if \<not> present (header_gemini_key w) \<and> \<not> present (env_gemini_key w)
                 then Some (error_reply 500
                   ''API key not configured. Add GEMINI_API_KEY to .env.local or configure in Settings.'')
                 else Some (handle (generateWithGemini (gemini_answer w)))
             | Some selected \<Rightarrow>
                 if provider = ''replicate'' then
                   if \<not> present (header_replicate_key w)
                   then Some (error_reply 401
                     ''Replicate API key not provided. Include X-Replicate-API-Key header.'')
                   else
                     (case generateWithReplicate pf (replicate_answers w)
                             (build_input ''replicate'' selected body) of
                        None \<Rightarrow> None
                      | Some (Inl e) \<Rightarrow> Some (catch_reply e)
                      | Some (Inr result) \<Rightarrow> Some (adapter_reply result))
                 else if provider = ''fal'' then
                   (case generateWithFal pf (fal_answers w) (header_fal_key w)
                           (build_input ''fal'' selected body) of
                      Inl e \<Rightarrow> Some (catch_reply e)
                    | Inr result \<Rightarrow> Some (adapter_reply result))
                 else
                   if \<not> present (header_gemini_key w) \<and> \<not> present (env_gemini_key w)
                   then Some (error_reply 500
                     ''API key not configured. Add GEMINI_API_KEY to .env.local or configure in Settings.'')
                   else Some (handle (generateWithGemini (gemini_answer w)))))"

section \<open>Schema route: the fetchers and the handler \<^verbatim>\<open>GET\<close>\<close>

definition Error :: "string \<Rightarrow> thrown" where
  "Error msg = \<lparr> thrown_message = Some msg, thrown_details = [] \<rparr>"

definition empty_schema :: ExtractedSchema where
  "empty_schema = \<lparr> parameters = [], inputs = [] \<rparr>"

text \<open>\<^verbatim>\<open>typeof v === "object"\<close> for a truthy value.\<close>

fun is_object :: "json \<Rightarrow> bool" where
  "is_object (JObj kvs) = True"
| "is_object (JArr xs) = True"
| "is_object _ = False"

definition fetchReplicateSchema ::
  "(string \<Rightarrow> string \<Rightarrow> int) \<Rightarrow> thrown + http_response \<Rightarrow> thrown + ExtractedSchema" where
  "fetchReplicateSchema localeCompare fetched =
     (case fetched of
        Inl e \<Rightarrow> Inl e
      | Inr response \<Rightarrow>
          if \<not> resp_ok response
          then Inl (Error (''Replicate API error: '' @ show_nat (resp_status response)))
          else
            (case json_of response of
               Inl e \<Rightarrow> Inl e
             | Inr data \<Rightarrow>
                 if data = JNull then Inl TypeError
                 else
                   (case opt_field (field data ''latest_version'') ''openapi_schema'' of
                      None \<Rightarrow> Inr empty_schema
                    | Some openApiSchema \<Rightarrow>
                        if \<not> truthy openApiSchema then Inr empty_schema
                        else
                          (let schemaComponents =
                                 opt_field (field openApiSchema ''components'') ''schemas'' in
                           case opt_field schemaComponents ''Input'' of
                             None \<Rightarrow> Inr empty_schema
                           | Some inputSchema \<Rightarrow>
                               if \<not> truthy inputSchema \<or> \<not> is_object inputSchema
                               then Inr empty_schema
                               else Inr (extractParametersFromSchema localeCompare inputSchema
                                           schemaComponents)))))"

text \<open>\<^verbatim>\<open>s.replace(pattern, replacement)\<close> with a string pattern: its first occurrence.\<close>

fun replace_first :: "string \<Rightarrow> string \<Rightarrow> string \<Rightarrow> string" where
  "replace_first pat rep [] = (if pat = [] then rep else [])"
| "replace_first pat rep (c # cs) =
     (if prefix pat (c # cs) then rep @ drop (length pat) (c # cs)
      else c # replace_first pat rep cs)"

text \<open>\<^verbatim>\<open>Object.values(spec.paths || {})\<close>; the characters of a string hold no operation.\<close>

definition path_objects :: "json \<Rightarrow> json list" where
  "path_objects spec =
     (case field spec ''paths'' of
        Some (JObj kvs) \<Rightarrow> map snd kvs
      | Some (JArr xs) \<Rightarrow> xs
      | _ \<Rightarrow> [])"

text \<open>The loop over the paths, up to its \<^verbatim>\<open>break\<close>.\<close>

fun find_input_schema :: "json \<Rightarrow> json list \<Rightarrow> json option" where
  "find_input_schema spec [] = None"
| "find_input_schema spec (pathObj # rest) =
     (let postOp = opt_field (Some pathObj) ''post'';
          reqBody = opt_field postOp ''requestBody'';
          content = opt_field reqBody ''content'';
          jsonContent = opt_field content ''application/json''
      in
      case opt_field jsonContent ''schema'' of
        None \<Rightarrow> find_input_schema spec rest
      | Some schema \<Rightarrow>
          if \<not> truthy schema then find_input_schema spec rest
          else
            (case field schema ''$ref'' of
               Some (JStr ref) \<Rightarrow>
                 if ref \<noteq> [] then
                   (let refPath = replace_first ''#/components/schemas/'' [] ref;
                        resolvedSchema =
                          opt_field (opt_field (field spec ''components'') ''schemas'') refPath
                    in if truthy_opt resolvedSchema then resolvedSchema
                       else find_input_schema spec rest)
                 else if truthy_opt (field schema ''properties'') then Some schema
                 else find_input_schema spec rest
             | _ \<Rightarrow>
                 if truthy_opt (field schema ''properties'') then Some schema
                 else find_input_schema spec rest))"

text \<open>\<^verbatim>\<open>data.models?.[0]\<close>.\<close>

definition first_model :: "json \<Rightarrow> json option" where
  "first_model data =
     (case field data ''models'' of
        Some (JArr (x # xs)) \<Rightarrow> Some x
      | Some (JObj kvs) \<Rightarrow> map_of kvs ''0''
      | Some (JStr (c # cs)) \<Rightarrow> Some (JStr [c])
      | _ \<Rightarrow> None)"

definition fetchFalSchema ::
  "(string \<Rightarrow> string \<Rightarrow> int) \<Rightarrow> thrown + http_response \<Rightarrow> thrown + ExtractedSchema" where
  "fetchFalSchema localeCompare fetched =
     (case fetched of
        Inl e \<Rightarrow> Inl e
      | Inr response \<Rightarrow>
          if \<not> resp_ok response then Inr empty_schema
          else
            (case json_of response of
               Inl e \<Rightarrow> Inl e
             | Inr data \<Rightarrow>
                 if data = JNull then Inl TypeError
                 else
                   (case opt_field (first_model data) ''openapi'' of
                      None \<Rightarrow> Inr empty_schema
                    | Some spec \<Rightarrow>
                        if \<not> truthy spec then Inr empty_schema
                        else
                          (case find_input_schema spec (path_objects spec) of
                             None \<Rightarrow> Inr empty_schema
                           | Some inputSchema \<Rightarrow>
                               Inr (extractParametersFromSchema localeCompare inputSchema
                                      (opt_field (field spec ''components'') ''schemas''))))))"

subsection \<open>The cache and the handler\<close>

record cache_entry =
  entry_parameters :: "ModelParameter list"
  entry_inputs :: "ModelInput list"
  entry_timestamp :: int

datatype SchemaResponse =
    SchemaSuccess "ModelParameter list" "ModelInput list" bool
  | SchemaError string

text \<open>
  One lookup: the decoded model id, the \<^verbatim>\<open>provider\<close> query parameter and the two
  credential headers.
\<close>

record schema_request =
  decodedModelId :: string
  query_provider :: "string option"
  header_X_Replicate_Key :: "string option"
  header_X_Fal_Key :: "string option"

text \<open>
  What the outside gives during one lookup: \<^verbatim>\<open>Date.now()\<close> at the cache check,
  \<^verbatim>\<open>Date.now()\<close> when the result is stored, the provider's answer to the fetcher, and
  the platform's collation.
\<close>

record schema_world =
  now_at_check :: int
  now_at_store :: int
  provider_answer :: "thrown + http_response"
  platform_localeCompare :: "string \<Rightarrow> string \<Rightarrow> int"

definition fetch_schema :: "string \<Rightarrow> schema_world \<Rightarrow> thrown + ExtractedSchema" where
  "fetch_schema provider w =
     (if provider = ''replicate''
      then fetchReplicateSchema (platform_localeCompare w) (provider_answer w)
      else fetchFalSchema (platform_localeCompare w) (provider_answer w))"

text \<open>The key \<^verbatim>\<open>`${provider}:${decodedModelId}`\<close>.\<close>

definition cacheKey :: "string \<Rightarrow> string \<Rightarrow> string" where
  "cacheKey provider modelId = provider @ '':'' @ modelId"

text \<open>
  The handler takes the cache (the module's \<^verbatim>\<open>schemaCache\<close>) and returns it with the
  reply: the HTTP status and the body.
\<close>

definition GET ::
  "(string \<rightharpoonup> cache_entry) \<Rightarrow> schema_world \<Rightarrow> schema_request
     \<Rightarrow> (nat \<times> SchemaResponse) \<times> (string \<rightharpoonup> cache_entry)" where
  "GET schemaCache w request =
     (case query_provider request of
        None \<Rightarrow>
          ((400, SchemaError
              ''Invalid or missing provider. Use ?provider=replicate or ?provider=fal''),
           schemaCache)
      | Some provider \<Rightarrow>
          if provider \<noteq> ''replicate'' \<and> provider \<noteq> ''fal'' then
            ((400, SchemaError
                ''Invalid or missing provider. Use ?provider=replicate or ?provider=fal''),
             schemaCache)
          else
            (let key = cacheKey provider (decodedModelId request);
                 hit =
                   (case schemaCache key of
                      Some cached \<Rightarrow> now_at_check w - entry_timestamp cached < CACHE_TTL
                    | None \<Rightarrow> False)
             in
             case (hit, schemaCache key) of
               (True, Some cached) \<Rightarrow>
                 ((200, SchemaSuccess (entry_parameters cached) (entry_inputs cached) True),
                  schemaCache)
             | _ \<Rightarrow>
                 if provider = ''replicate'' \<and> \<not> present (header_X_Replicate_Key request) then
                   ((401, SchemaError
                       ''Replicate API key required. Include X-Replicate-Key header.''),
                    schemaCache)
                 else
                   (case fetch_schema provider w of
                      Inl e \<Rightarrow>
                        ((500, SchemaError
                            (case thrown_message e of
                               Some m \<Rightarrow> m
                             | None \<Rightarrow> ''Unknown error'')),
                         schemaCache)
                    | Inr result \<Rightarrow>
                        ((200, SchemaSuccess (parameters result) (inputs result) False),
                         schemaCache(key \<mapsto>
                           \<lparr> entry_parameters = parameters result,
                             entry_inputs = inputs result,
                             entry_timestamp = now_at_store w \<rparr>)))))"

section \<open>Example runs\<close>

text \<open>Concrete platforms, requests and provider answers, for evaluating the handlers.\<close>

text \<open>
  An example collation: the order of the character codes. On names that are made of
  lower-case letters only it orders as every collation of the Latin alphabet does.
\<close>

fun code_unit_compare :: "string \<Rightarrow> string \<Rightarrow> int" where
  "code_unit_compare [] [] = 0"
| "code_unit_compare [] (y # ys) = - 1"
| "code_unit_compare (x # xs) [] = 1"
| "code_unit_compare (x # xs) (y # ys) =
     (if (of_char x :: nat) < of_char y then - 1
      else if (of_char y :: nat) < of_char x then 1
      else code_unit_compare xs ys)"

definition example_platform :: platform where
  "example_platform = \<lparr> to_string = (\<lambda>v. []), stringify = (\<lambda>v. []), base64 = (\<lambda>b. b) \<rparr>"

definition json_response :: "nat \<Rightarrow> json \<Rightarrow> http_response" where
  "json_response status j =
     \<lparr> resp_status = status, resp_content_type = Some ''application/json'', resp_text = [],
       resp_json = Some j, resp_bytes = [] \<rparr>"

definition media_response :: "string \<Rightarrow> string \<Rightarrow> http_response" where
  "media_response contentType bytes =
     \<lparr> resp_status = 200, resp_content_type = Some contentType, resp_text = [],
       resp_json = None, resp_bytes = bytes \<rparr>"

definition example_input :: GenerationInput where
  "example_input =
     \<lparr> gen_model = \<lparr> model_id = ''owner/model-x'', model_name = ''Model X'',
                     model_provider = ''replicate'' \<rparr>,
       gen_prompt = ''a cat'',
       gen_images = [''data:image/png;base64,AAAA'', ''data:image/png;base64,BBBB''],
       gen_parameters = Some [(''seed'', JNum 7)],
       gen_dynamicInputs = None \<rparr>"

text \<open>
  A Replicate run: the model has a version, the creation is answered by the given
  response, and the loop sees the given script from clock reading 0 on.
\<close>

definition example_replicate_world ::
  "http_response \<Rightarrow> (int \<times> (thrown + http_response)) list \<Rightarrow> replicate_world" where
  "example_replicate_world created script =
     \<lparr> modelResponse =
         Inr (json_response 200 (JObj [(''latest_version'', JObj [(''id'', JStr ''v1'')])])),
       createResponse = (\<lambda>body. Inr created),
       startTime = 0,
       pollScript = script,
       mediaResponse = (\<lambda>url. Inr (media_response ''video/mp4'' ''abc'')) \<rparr>"

definition example_fal_world :: fal_world where
  "example_fal_world =
     \<lparr> falSchemaResponse = Inr (json_response 404 JNull),
       falResponse =
         (\<lambda>body. Inr (json_response 200
            (JObj [(''video'', JObj [(''url'', JStr ''https://cdn.example/out.mp4'')])]))),
       falMediaResponse = (\<lambda>url. Inr (media_response ''video/mp4'' ''abc'')) \<rparr>"

definition example_request :: "string \<Rightarrow> GenerateRequest" where
  "example_request provider =
     \<lparr> req_images = None, req_prompt = Some ''a cat'',
       req_selectedModel =
         Some \<lparr> sel_provider = Some provider, sel_modelId = ''owner/model-x'',
                sel_displayName = ''Model X'' \<rparr>,
       req_parameters = None, req_dynamicInputs = None \<rparr>"

definition example_world :: "string \<Rightarrow> replicate_world \<Rightarrow> generate_world" where
  "example_world provider answers =
     \<lparr> requestBody = Inr (example_request provider),
       header_replicate_key = Some ''r8_key'',
       header_fal_key = None,
       header_gemini_key = None,
       env_gemini_key = None,
       replicate_answers = answers,
       fal_answers = example_fal_world,
       gemini_answer = Inr None \<rparr>"

text \<open>
  A schema lookup for fal, a cache that holds an entry for it stamped at 1000, and a world
  in which the cache check reads the given clock and the provider answers 404.
\<close>

definition example_schema_request :: schema_request where
  "example_schema_request =
     \<lparr> decodedModelId = ''owner/model-x'', query_provider = Some ''fal'',
       header_X_Replicate_Key = None, header_X_Fal_Key = None \<rparr>"

definition example_entry :: cache_entry where
  "example_entry = \<lparr> entry_parameters = [], entry_inputs = [], entry_timestamp = 1000 \<rparr>"

definition example_cache :: "string \<rightharpoonup> cache_entry" where
  "example_cache = [cacheKey ''fal'' ''owner/model-x'' \<mapsto> example_entry]"

definition example_schema_world :: "int \<Rightarrow> schema_world" where
  "example_schema_world now =
     \<lparr> now_at_check = now, now_at_store = now + 250,
       provider_answer = Inr (json_response 404 JNull),
       platform_localeCompare = code_unit_compare \<rparr>"

text \<open>
  A property whose \<^verbatim>\<open>allOf\<close> refers to two definitions that both supply a type, an enum
  list, a default and a description.
\<close>

definition example_first_definition :: json where
  "example_first_definition =
     JObj [(''type'', JStr ''integer''), (''enum'', JArr [JStr ''a'']),
           (''default'', JStr ''x''), (''description'', JStr ''first'')]"

definition example_second_definition :: json where
  "example_second_definition =
     JObj [(''type'', JStr ''number''), (''enum'', JArr [JStr ''b'']),
           (''default'', JStr ''y''), (''description'', JStr ''second'')]"

definition example_components :: json where
  "example_components =
     JObj [(''First'', example_first_definition), (''Second'', example_second_definition)]"

definition example_allOf :: "json list" where
  "example_allOf =
     [JObj [(''$ref'', JStr ''#/components/schemas/First'')],
      JObj [(''$ref'', JStr ''#/components/schemas/Second'')]]"
section \<open>Properties of the schema route\<close>

subsection \<open>The comparator and the sort\<close>

lemma set_insert_by: "set (insert_by cmp x ys) = insert x (set ys)"
  by (induction ys) auto

lemma mset_insert_by: "mset (insert_by cmp x ys) = add_mset x (mset ys)"
  by (induction ys) auto

lemma mset_sort_by: "mset (sort_by cmp xs) = mset xs"
  by (induction xs) (auto simp: mset_insert_by)

lemma set_sort_by: "set (sort_by cmp xs) = set xs"
  by (induction xs) (auto simp: set_insert_by)

lemma sorted_insert_by:
  assumes total: "\<And>a b. cmp a b \<le> 0 \<or> cmp b a \<le> 0"
    and trans: "\<And>a b c. cmp a b \<le> 0 \<Longrightarrow> cmp b c \<le> 0 \<Longrightarrow> cmp a c \<le> 0"
    and sorted: "sorted_wrt (\<lambda>a b. cmp a b \<le> 0) ys"
  shows "sorted_wrt (\<lambda>a b. cmp a b \<le> 0) (insert_by cmp x ys)"
  using sorted
proof (induction ys)
  case Nil
  then show ?case by simp
next
  case (Cons y ys)
  show ?case
  proof (cases "cmp x y \<le> 0")
    case True
    with Cons.prems trans show ?thesis by auto
  next
    case False
    with total have "cmp y x \<le> 0" by blast
    with False Cons show ?thesis by (auto simp: set_insert_by)
  qed
qed

lemma sorted_sort_by:
  assumes total: "\<And>a b. cmp a b \<le> 0 \<or> cmp b a \<le> 0"
    and trans: "\<And>a b c. cmp a b \<le> 0 \<Longrightarrow> cmp b c \<le> 0 \<Longrightarrow> cmp a c \<le> 0"
  shows "sorted_wrt (\<lambda>a b. cmp a b \<le> 0) (sort_by cmp xs)"
proof (induction xs)
  case Nil
  then show ?case by simp
next
  case (Cons x xs)
  from total trans Cons.IH show ?case
    unfolding sort_by.simps by (rule sorted_insert_by)
qed

lemma compareParameters_le:
  "compareParameters localeCompare a b \<le> 0 \<longleftrightarrow>
     (param_name a \<in> set PRIORITY_PARAMS \<and> param_name b \<notin> set PRIORITY_PARAMS) \<or>
     ((param_name a \<in> set PRIORITY_PARAMS) = (param_name b \<in> set PRIORITY_PARAMS) \<and>
       localeCompare (param_name a) (param_name b) \<le> 0)"
  by (auto simp: compareParameters_def Let_def)

lemma compareParameters_total:
  assumes "\<forall>a b. localeCompare a b \<le> 0 \<or> localeCompare b a \<le> 0"
  shows "compareParameters localeCompare a b \<le> 0 \<or> compareParameters localeCompare b a \<le> 0"
  using assms unfolding compareParameters_le by blast

lemma compareParameters_trans:
  assumes "\<forall>a b c. localeCompare a b \<le> 0 \<and> localeCompare b c \<le> 0 \<longrightarrow> localeCompare a c \<le> 0"
    and "compareParameters localeCompare a b \<le> 0"
    and "compareParameters localeCompare b c \<le> 0"
  shows "compareParameters localeCompare a c \<le> 0"
proof -
  have "localeCompare (param_name a) (param_name b) \<le> 0 \<Longrightarrow>
        localeCompare (param_name b) (param_name c) \<le> 0 \<Longrightarrow>
        localeCompare (param_name a) (param_name c) \<le> 0"
    using assms(1) by blast
  with assms(2,3) show ?thesis unfolding compareParameters_le by blast
qed

lemma sorted_parameters:
  assumes "\<forall>a b. localeCompare a b \<le> 0 \<or> localeCompare b a \<le> 0"
    and "\<forall>a b c. localeCompare a b \<le> 0 \<and> localeCompare b c \<le> 0 \<longrightarrow> localeCompare a c \<le> 0"
  shows "sorted_wrt (\<lambda>a b. compareParameters localeCompare a b \<le> 0)
           (sort_by (compareParameters localeCompare) ps)"
proof (rule sorted_sort_by)
  show "compareParameters localeCompare a b \<le> 0 \<or> compareParameters localeCompare b a \<le> 0"
    for a b
    using assms(1) by (rule compareParameters_total)
  show "compareParameters localeCompare a b \<le> 0 \<Longrightarrow>
        compareParameters localeCompare b c \<le> 0 \<Longrightarrow>
        compareParameters localeCompare a c \<le> 0" for a b c
    using assms(2) by (rule compareParameters_trans)
qed

text \<open>The example collation is total and transitive.\<close>

lemma code_unit_compare_total: "code_unit_compare a b \<le> 0 \<or> code_unit_compare b a \<le> 0"
  by (induction a b rule: code_unit_compare.induct) simp_all

lemma code_unit_compare_Cons_le:
  "code_unit_compare (x # xs) (y # ys) \<le> 0 \<longleftrightarrow>
     (of_char x :: nat) < of_char y \<or> (x = y \<and> code_unit_compare xs ys \<le> 0)"
  by (cases "(of_char x :: nat) < of_char y"; cases "(of_char y :: nat) < of_char x") auto

lemma code_unit_compare_trans:
  "code_unit_compare a b \<le> 0 \<Longrightarrow> code_unit_compare b c \<le> 0 \<Longrightarrow> code_unit_compare a c \<le> 0"
proof (induction a arbitrary: b c)
  case Nil
  then show ?case by (cases c) simp_all
next
  case (Cons x xs)
  from Cons.prems(1) obtain y ys where b: "b = y # ys" by (cases b) simp_all
  from Cons.prems(2) b obtain z zs where c: "c = z # zs" by (cases c) simp_all
  from Cons.prems b c
  have xy: "(of_char x :: nat) < of_char y \<or> (x = y \<and> code_unit_compare xs ys \<le> 0)"
    and yz: "(of_char y :: nat) < of_char z \<or> (y = z \<and> code_unit_compare ys zs \<le> 0)"
    by (simp_all only: code_unit_compare_Cons_le)
  then have "(of_char x :: nat) < of_char z \<or> (x = z \<and> code_unit_compare xs zs \<le> 0)"
    using Cons.IH [of ys zs] by auto
  then show ?case unfolding c code_unit_compare_Cons_le .
qed


subsection \<open>Classification of the entries\<close>

lemma convertSchemaProperty_name:
  "convertSchemaProperty name prop required comps = Some p \<Longrightarrow> param_name p = name"
  by (auto simp: convertSchemaProperty_def Let_def split: if_splits)

lemma convertSchemaProperty_Some:
  "name \<notin> set EXCLUDED_PARAMS \<Longrightarrow> \<exists>p. convertSchemaProperty name prop required comps = Some p"
  by (simp add: convertSchemaProperty_def Let_def)

lemma classify_parameters_not_image:
  "p \<in> set (parameters (classify_entries required comps entries)) \<Longrightarrow>
     \<not> isImageInput (param_name p)"
  by (induction entries)
     (auto simp: Let_def split: if_splits option.splits dest: convertSchemaProperty_name)

lemma classify_inputs_image:
  "(name, prop) \<in> set entries \<Longrightarrow> isImageInput name \<Longrightarrow>
     mk_input name ImageInput prop required \<in> set (inputs (classify_entries required comps entries))"
  by (induction entries) (auto simp: Let_def split: option.splits)

lemma isImageInput_includes: "sublist ''image'' name \<Longrightarrow> isImageInput name"
  by (simp add: isImageInput_def IMAGE_INPUT_PATTERNS_def)


subsection \<open>Parameter order\<close>

text \<open>
  Claim C1, as the code has it. The collation \<open>localeCompare\<close> is the platform's; it is a
  consistent comparator, that is, total and transitive. The parameters of an extraction
  are then ordered by the comparator of the sort: a name of \<open>PRIORITY_PARAMS\<close> never
  follows a name outside it, and two names of the same group are in the order of the
  collation; the sort keeps exactly the parameters the classification collected. The
  names \<open>width\<close>, \<open>seed\<close> and \<open>height\<close> are all three in \<open>PRIORITY_PARAMS\<close>, so with a
  collation that puts \<open>seed\<close> after \<open>height\<close> and \<open>width\<close> after both, a schema with
  exactly these properties yields the alphabetical list \<open>[height, seed, width]\<close>,
  whatever the properties' descriptions are.
\<close>

theorem parameter_order:
  assumes "\<forall>a b. localeCompare a b \<le> 0 \<or> localeCompare b a \<le> 0"
    and "\<forall>a b c. localeCompare a b \<le> 0 \<and> localeCompare b c \<le> 0 \<longrightarrow> localeCompare a c \<le> 0"
  shows "sorted_wrt (\<lambda>a b.
       (param_name b \<in> set PRIORITY_PARAMS \<longrightarrow> param_name a \<in> set PRIORITY_PARAMS) \<and>
       ((param_name a \<in> set PRIORITY_PARAMS) = (param_name b \<in> set PRIORITY_PARAMS) \<longrightarrow>
          localeCompare (param_name a) (param_name b) \<le> 0))
     (parameters (extractParametersFromSchema localeCompare schema comps))
   \<and> (0 < localeCompare ''seed'' ''height'' \<and> 0 < localeCompare ''width'' ''height'' \<and>
       0 < localeCompare ''width'' ''seed'' \<longrightarrow>
       map param_name (parameters (extractParametersFromSchema localeCompare
          (JObj [(''properties'', JObj [(''width'', w), (''seed'', s), (''height'', h)])]) comps))
        = [''height'', ''seed'', ''width''])
   \<and> mset (parameters (extractParametersFromSchema localeCompare schema comps))
      = mset (case field schema ''properties'' of
                Some (JObj properties) \<Rightarrow>
                  parameters (classify_entries (required_names schema) comps properties)
              | _ \<Rightarrow> [])"
proof (intro conjI impI)
  show "mset (parameters (extractParametersFromSchema localeCompare schema comps))
      = mset (case field schema ''properties'' of
                Some (JObj properties) \<Rightarrow>
                  parameters (classify_entries (required_names schema) comps properties)
              | _ \<Rightarrow> [])"
    by (auto simp: extractParametersFromSchema_def Let_def mset_sort_by
        split: option.splits json.splits)
next
  have "sorted_wrt (\<lambda>a b. compareParameters localeCompare a b \<le> 0)
     (parameters (extractParametersFromSchema localeCompare schema comps))"
    using sorted_parameters [OF assms]
    by (auto simp: extractParametersFromSchema_def Let_def split: option.splits json.splits)
  then show "sorted_wrt (\<lambda>a b.
       (param_name b \<in> set PRIORITY_PARAMS \<longrightarrow> param_name a \<in> set PRIORITY_PARAMS) \<and>
       ((param_name a \<in> set PRIORITY_PARAMS) = (param_name b \<in> set PRIORITY_PARAMS) \<longrightarrow>
          localeCompare (param_name a) (param_name b) \<le> 0))
     (parameters (extractParametersFromSchema localeCompare schema comps))"
    by (rule sorted_wrt_mono_rel [rotated]) (auto simp: compareParameters_le)
next
  assume order: "0 < localeCompare ''seed'' ''height'' \<and> 0 < localeCompare ''width'' ''height'' \<and>
       0 < localeCompare ''width'' ''seed''"
  have "''width'' \<notin> set EXCLUDED_PARAMS" by (simp add: EXCLUDED_PARAMS_def)
  from convertSchemaProperty_Some [OF this]
  obtain pw where pw: "convertSchemaProperty ''width'' w [] comps = Some pw" by blast
  have "''seed'' \<notin> set EXCLUDED_PARAMS" by (simp add: EXCLUDED_PARAMS_def)
  from convertSchemaProperty_Some [OF this]
  obtain ps where ps: "convertSchemaProperty ''seed'' s [] comps = Some ps" by blast
  have "''height'' \<notin> set EXCLUDED_PARAMS" by (simp add: EXCLUDED_PARAMS_def)
  from convertSchemaProperty_Some [OF this]
  obtain ph where ph: "convertSchemaProperty ''height'' h [] comps = Some ph" by blast
  note names = convertSchemaProperty_name [OF pw] convertSchemaProperty_name [OF ps]
    convertSchemaProperty_name [OF ph]
  have img: "\<not> isImageInput ''width''" "\<not> isImageInput ''seed''" "\<not> isImageInput ''height''"
    by (simp_all add: isImageInput_def IMAGE_INPUT_PATTERNS_def sublist_code suffix_to_prefix)
  have not_text: "\<not> isTextInput ''width''" "\<not> isTextInput ''seed''" "\<not> isTextInput ''height''"
    by (simp_all add: isTextInput_def TEXT_INPUT_NAMES_def)
  have req: "required_names (JObj [(''properties'', JObj [(''width'', w), (''seed'', s), (''height'', h)])]) = []"
    by (simp add: required_names_def)
  have cl: "parameters (classify_entries [] comps [(''width'', w), (''seed'', s), (''height'', h)])
      = [pw, ps, ph]"
    by (simp add: img not_text pw ps ph Let_def)
  have cmp: "compareParameters localeCompare ps ph > 0" "compareParameters localeCompare pw ph > 0"
    "compareParameters localeCompare pw ps > 0"
    using order by (simp_all add: compareParameters_def names PRIORITY_PARAMS_def Let_def)
  show "map param_name (parameters (extractParametersFromSchema localeCompare
        (JObj [(''properties'', JObj [(''width'', w), (''seed'', s), (''height'', h)])]) comps))
      = [''height'', ''seed'', ''width'']"
  proof -
    have "parameters (extractParametersFromSchema localeCompare
        (JObj [(''properties'', JObj [(''width'', w), (''seed'', s), (''height'', h)])]) comps)
      = sort_by (compareParameters localeCompare) [pw, ps, ph]"
      by (simp add: extractParametersFromSchema_def req cl Let_def del: classify_entries.simps)
    also have "\<dots> = [ph, ps, pw]" using cmp by simp
    finally show ?thesis by (simp add: names)
  qed
qed

theorem parameter_order_witness:
  "sorted_wrt (\<lambda>a b.
       (param_name b \<in> set PRIORITY_PARAMS \<longrightarrow> param_name a \<in> set PRIORITY_PARAMS) \<and>
       ((param_name a \<in> set PRIORITY_PARAMS) = (param_name b \<in> set PRIORITY_PARAMS) \<longrightarrow>
          code_unit_compare (param_name a) (param_name b) \<le> 0))
     (parameters (extractParametersFromSchema code_unit_compare
        (JObj [(''properties'',
           JObj [(''zeta'', JObj []), (''width'', JObj [(''type'', JStr ''integer'')]),
                 (''alpha'', JObj []), (''seed'', JObj [])])]) None))
   \<and> map param_name (parameters (extractParametersFromSchema code_unit_compare
        (JObj [(''properties'',
           JObj [(''zeta'', JObj []), (''width'', JObj [(''type'', JStr ''integer'')]),
                 (''alpha'', JObj []), (''seed'', JObj [])])]) None))
      = [''seed'', ''width'', ''alpha'', ''zeta'']
   \<and> map param_name (parameters (extractParametersFromSchema code_unit_compare
        (JObj [(''properties'',
           JObj [(''width'', JObj []), (''seed'', JObj []), (''height'', JObj [])])]) None))
      = [''height'', ''seed'', ''width'']"
proof (intro conjI)
  have total: "\<forall>a b. code_unit_compare a b \<le> 0 \<or> code_unit_compare b a \<le> 0"
    using code_unit_compare_total by blast
  have trans: "\<forall>a b c. code_unit_compare a b \<le> 0 \<and> code_unit_compare b c \<le> 0
      \<longrightarrow> code_unit_compare a c \<le> 0"
    using code_unit_compare_trans by blast
  have order: "0 < code_unit_compare ''seed'' ''height'' \<and>
      0 < code_unit_compare ''width'' ''height'' \<and> 0 < code_unit_compare ''width'' ''seed''"
    by code_simp
  show "sorted_wrt (\<lambda>a b.
       (param_name b \<in> set PRIORITY_PARAMS \<longrightarrow> param_name a \<in> set PRIORITY_PARAMS) \<and>
       ((param_name a \<in> set PRIORITY_PARAMS) = (param_name b \<in> set PRIORITY_PARAMS) \<longrightarrow>
          code_unit_compare (param_name a) (param_name b) \<le> 0))
     (parameters (extractParametersFromSchema code_unit_compare
        (JObj [(''properties'',
           JObj [(''zeta'', JObj []), (''width'', JObj [(''type'', JStr ''integer'')]),
                 (''alpha'', JObj []), (''seed'', JObj [])])]) None))"
    using parameter_order [OF total trans] by (rule conjunct1)
  show "map param_name (parameters (extractParametersFromSchema code_unit_compare
        (JObj [(''properties'',
           JObj [(''width'', JObj []), (''seed'', JObj []), (''height'', JObj [])])]) None))
      = [''height'', ''seed'', ''width'']"
    using parameter_order [OF total trans, where w = "JObj []" and s = "JObj []"
        and h = "JObj []" and comps = None] order
    by blast
  show "map param_name (parameters (extractParametersFromSchema code_unit_compare
        (JObj [(''properties'',
           JObj [(''zeta'', JObj []), (''width'', JObj [(''type'', JStr ''integer'')]),
                 (''alpha'', JObj []), (''seed'', JObj [])])]) None))
      = [''seed'', ''width'', ''alpha'', ''zeta'']"
    by code_simp
qed

text \<open>
  The list the specification names for \<open>{width, seed, height}\<close>, \<open>[seed, height, width]\<close>,
  is not the one the extraction returns. The three names are lower-case words that differ
  in their first letter, which the example collation orders as the platform's does.
\<close>

theorem parameter_order_counterexample:
  "map param_name (parameters (extractParametersFromSchema code_unit_compare
      (JObj [(''properties'',
         JObj [(''width'', JObj []), (''seed'', JObj []), (''height'', JObj [])])]) None))
   \<noteq> [''seed'', ''height'', ''width'']"
  by code_simp

subsection \<open>Image inputs\<close>

text \<open>
  Claim C4, as the code has it. \<^verbatim>\<open>name.includes("image")\<close> compares characters exactly:
  every property whose name contains the lower-case string \<open>image\<close> becomes an image
  input and is absent from the parameters, whatever the collation of the sort is.
\<close>

theorem image_named_property_is_input:
  assumes "field schema ''properties'' = Some (JObj properties)"
    and "(name, prop) \<in> set properties"
    and "sublist ''image'' name"
  shows "name \<notin> param_name `
           set (parameters (extractParametersFromSchema localeCompare schema comps)) \<and>
         (\<exists>i \<in> set (inputs (extractParametersFromSchema localeCompare schema comps)).
            input_name i = name \<and> input_type i = ImageInput)"
proof -
  let ?r = "classify_entries (required_names schema) comps properties"
  have img: "isImageInput name" using assms(3) by (rule isImageInput_includes)
  have ps: "set (parameters (extractParametersFromSchema localeCompare schema comps))
      = set (parameters ?r)"
    and ins: "set (inputs (extractParametersFromSchema localeCompare schema comps))
      = set (inputs ?r)"
    using assms(1) by (simp_all add: extractParametersFromSchema_def Let_def set_sort_by)
  have "name \<notin> param_name ` set (parameters ?r)"
    using img classify_parameters_not_image by blast
  moreover have "mk_input name ImageInput prop (required_names schema) \<in> set (inputs ?r)"
    using assms(2) img by (rule classify_inputs_image)
  then have "\<exists>i \<in> set (inputs ?r). input_name i = name \<and> input_type i = ImageInput"
    by (rule bexI [rotated]) (simp add: mk_input_def)
  ultimately show ?thesis by (simp add: ps ins)
qed

theorem image_named_property_is_input_witness:
  "''my_image_url'' \<notin> param_name ` set (parameters (extractParametersFromSchema code_unit_compare
       (JObj [(''properties'', JObj [(''seed'', JObj []), (''my_image_url'', JObj [])])]) None)) \<and>
   (\<exists>i \<in> set (inputs (extractParametersFromSchema code_unit_compare
       (JObj [(''properties'', JObj [(''seed'', JObj []), (''my_image_url'', JObj [])])]) None)).
      input_name i = ''my_image_url'' \<and> input_type i = ImageInput)"
proof -
  have h1: "field (JObj [(''properties'', JObj [(''seed'', JObj []), (''my_image_url'', JObj [])])])
      ''properties'' = Some (JObj [(''seed'', JObj []), (''my_image_url'', JObj [])])"
    by simp
  have h2: "(''my_image_url'', JObj []) \<in> set [(''seed'', JObj []), (''my_image_url'', JObj [])]"
    by simp
  have h3: "sublist ''image'' ''my_image_url''"
    by code_simp
  show ?thesis by (rule image_named_property_is_input [OF h1 h2 h3])
qed

text \<open>
  A name that contains \<open>image\<close> only up to letter case is not an image input: the property
  \<open>IMAGE\<close> is returned as a parameter.
\<close>

theorem image_named_property_counterexample:
  "sublist ''image'' (toLowerCase ''IMAGE'') \<and>
   \<not> isImageInput ''IMAGE'' \<and>
   map param_name (parameters (extractParametersFromSchema code_unit_compare
      (JObj [(''properties'', JObj [(''IMAGE'', JObj [])])]) None)) = [''IMAGE''] \<and>
   inputs (extractParametersFromSchema code_unit_compare
      (JObj [(''properties'', JObj [(''IMAGE'', JObj [])])]) None) = []"
  by code_simp

subsection \<open>The merge of an \<^verbatim>\<open>allOf\<close> combination\<close>

lemma last_of_Cons: "last_of (x # xs) = (case last_of xs of None \<Rightarrow> Some x | Some y \<Rightarrow> Some y)"
  by (simp add: last_of_def)

lemma allOf_loop_merge:
  "allOf_loop comps items acc =
     \<lparr> acc_type =
         (case last_of (List.map_filter scalar_type_of (resolved_definitions comps items)) of
            Some t \<Rightarrow> t
          | None \<Rightarrow> acc_type acc),
       acc_enumValues =
         (case last_of (supplied_enums comps items) of
            Some e \<Rightarrow> Some e
          | None \<Rightarrow> acc_enumValues acc),
       acc_resolvedDefault =
         (case acc_resolvedDefault acc of
            Some v \<Rightarrow> Some v
          | None \<Rightarrow>
              first_of (List.map_filter (\<lambda>d. field d ''default'') (resolved_definitions comps items))),
       acc_resolvedDescription =
         (if truthy_opt (acc_resolvedDescription acc) then acc_resolvedDescription acc
          else
            (case first_of (filter truthy
                    (List.map_filter (\<lambda>d. field d ''description'')
                       (resolved_definitions comps items))) of
               Some v \<Rightarrow> Some v
             | None \<Rightarrow> acc_resolvedDescription acc)) \<rparr>"
proof (induction items arbitrary: acc)
  case Nil
  then show ?case
    by (simp add: resolved_definitions_def supplied_enums_def last_of_def first_of_def
        split: option.splits)
next
  case (Cons item items)
  let ?defs = "resolved_definitions comps items"
  let ?enums = "supplied_enums comps items"
  consider
      (plain) "item_ref item = None" "array_field item ''enum'' = None"
    | (own_enum) e where "item_ref item = None" "array_field item ''enum'' = Some e"
    | (dangling) itemRef where "item_ref item = Some itemRef" "resolveRef itemRef comps = None"
    | (resolved) itemRef resolved where "item_ref item = Some itemRef"
        "resolveRef itemRef comps = Some resolved"
    by (cases "item_ref item"; cases "array_field item ''enum''";
        cases "resolveRef (the (item_ref item)) comps") auto
  then show ?case
  proof cases
    case plain
    then have step: "allOf_step comps item acc = acc"
      and defs: "resolved_definitions comps (item # items) = ?defs"
      and enums: "supplied_enums comps (item # items) = ?enums"
      by (simp_all add: allOf_step_def resolved_definitions_def supplied_enums_def)
    show ?thesis unfolding allOf_loop.simps Cons.IH step defs enums ..
  next
    case own_enum
    then have step: "allOf_step comps item acc = acc\<lparr>acc_enumValues := Some e\<rparr>"
      and defs: "resolved_definitions comps (item # items) = ?defs"
      and enums: "supplied_enums comps (item # items) = e # ?enums"
      by (simp_all add: allOf_step_def resolved_definitions_def supplied_enums_def)
    show ?thesis unfolding allOf_loop.simps Cons.IH step defs enums
      by (simp add: last_of_Cons split: option.splits)
  next
    case dangling
    then have step: "allOf_step comps item acc = acc"
      and defs: "resolved_definitions comps (item # items) = ?defs"
      and enums: "supplied_enums comps (item # items) = ?enums"
      by (simp_all add: allOf_step_def resolved_definitions_def supplied_enums_def)
    show ?thesis unfolding allOf_loop.simps Cons.IH step defs enums ..
  next
    case resolved
    then have step: "allOf_step comps item acc = apply_resolved resolved acc"
      and defs: "resolved_definitions comps (item # items) = resolved # ?defs"
      and enums: "supplied_enums comps (item # items) =
          (case array_field resolved ''enum'' of None \<Rightarrow> ?enums | Some e \<Rightarrow> e # ?enums)"
      by (simp_all add: allOf_step_def resolved_definitions_def supplied_enums_def
          split: option.splits)
    have ty: "(case last_of (List.map_filter scalar_type_of ?defs) of
            Some t \<Rightarrow> t | None \<Rightarrow> acc_type (apply_resolved resolved acc))
        = (case last_of (List.map_filter scalar_type_of (resolved # ?defs)) of
            Some t \<Rightarrow> t | None \<Rightarrow> acc_type acc)"
      by (simp add: last_of_Cons apply_resolved_def scalar_type_of_def
          split: option.splits)
    have en: "(case last_of ?enums of
            Some e \<Rightarrow> Some e | None \<Rightarrow> acc_enumValues (apply_resolved resolved acc))
        = (case last_of (case array_field resolved ''enum'' of None \<Rightarrow> ?enums | Some e \<Rightarrow> e # ?enums) of
            Some e \<Rightarrow> Some e | None \<Rightarrow> acc_enumValues acc)"
      by (simp add: last_of_Cons apply_resolved_def split: option.splits)
    have df: "(case acc_resolvedDefault (apply_resolved resolved acc) of
            Some v \<Rightarrow> Some v
          | None \<Rightarrow> first_of (List.map_filter (\<lambda>d. field d ''default'') ?defs))
        = (case acc_resolvedDefault acc of
            Some v \<Rightarrow> Some v
          | None \<Rightarrow> first_of (List.map_filter (\<lambda>d. field d ''default'') (resolved # ?defs)))"
      by (simp add: first_of_def apply_resolved_def split: option.splits)
    have ds: "(if truthy_opt (acc_resolvedDescription (apply_resolved resolved acc))
          then acc_resolvedDescription (apply_resolved resolved acc)
          else
            (case first_of (filter truthy (List.map_filter (\<lambda>d. field d ''description'') ?defs)) of
               Some v \<Rightarrow> Some v
             | None \<Rightarrow> acc_resolvedDescription (apply_resolved resolved acc)))
        = (if truthy_opt (acc_resolvedDescription acc) then acc_resolvedDescription acc
          else
            (case first_of (filter truthy
                    (List.map_filter (\<lambda>d. field d ''description'') (resolved # ?defs))) of
               Some v \<Rightarrow> Some v
             | None \<Rightarrow> acc_resolvedDescription acc))"
      by (auto simp: first_of_def apply_resolved_def truthy_opt_def
          split: option.splits)
    show ?thesis unfolding allOf_loop.simps Cons.IH step defs enums ty en df ds ..
  qed
qed

text \<open>
  Claim C2, as the code has it. The property has no direct scalar type, its \<^verbatim>\<open>allOf\<close> has
  items, and the components table is there. In the resulting parameter the default and
  the description come from the first resolved definition that supplies one (a truthy
  one, for the description), unless the property declares its own; the type and the enum
  list are assigned again by every later definition that supplies one, so the type is the
  scalar type of the last resolved definition that has one (\<open>string\<close> when none has),
  and the enum list is the last one among the resolved definitions' lists and the lists
  of the items without a reference, unless the property declares its own.
\<close>

theorem allOf_merge:
  assumes "name \<notin> set EXCLUDED_PARAMS"
    and "field prop ''type'' \<notin> {Some (JStr ''integer''), Some (JStr ''number''),
           Some (JStr ''boolean''), Some (JStr ''array'')}"
    and "array_field prop ''allOf'' = Some items" and "items \<noteq> []"
    and "truthy schemaComponents"
  shows "convertSchemaProperty name prop required (Some schemaComponents) =
     Some \<lparr> param_name = name,
            param_type =
              (case last_of (List.map_filter scalar_type_of
                      (resolved_definitions schemaComponents items)) of
                 Some t \<Rightarrow> t
               | None \<Rightarrow> TString),
            param_description =
              js_or (field prop ''description'')
                (first_of (filter truthy
                   (List.map_filter (\<lambda>d. field d ''description'')
                      (resolved_definitions schemaComponents items)))),
            param_default =
              (case field prop ''default'' of
                 Some v \<Rightarrow> Some v
               | None \<Rightarrow>
                   first_of (List.map_filter (\<lambda>d. field d ''default'')
                      (resolved_definitions schemaComponents items))),
            param_required = (name \<in> set required),
            param_minimum = number_field prop ''minimum'',
            param_maximum = number_field prop ''maximum'',
            param_enum =
              (case array_field prop ''enum'' of
                 Some xs \<Rightarrow> Some xs
               | None \<Rightarrow> last_of (supplied_enums schemaComponents items)) \<rparr>"
proof -
  from assms(4) obtain item rest where items: "items = item # rest" by (cases items) auto
  have "determine_type prop (Some schemaComponents) = allOf_loop schemaComponents items init_acc"
    using assms(2,3,5) items by (simp add: determine_type_def Let_def)
  then have acc: "determine_type prop (Some schemaComponents) =
     \<lparr> acc_type =
         (case last_of (List.map_filter scalar_type_of (resolved_definitions schemaComponents items)) of
            Some t \<Rightarrow> t | None \<Rightarrow> TString),
       acc_enumValues = last_of (supplied_enums schemaComponents items),
       acc_resolvedDefault =
         first_of (List.map_filter (\<lambda>d. field d ''default'') (resolved_definitions schemaComponents items)),
       acc_resolvedDescription =
         first_of (filter truthy
                    (List.map_filter (\<lambda>d. field d ''description'')
                       (resolved_definitions schemaComponents items))) \<rparr>"
    unfolding allOf_loop_merge
    by (simp add: init_acc_def truthy_opt_def split: option.splits)
  show ?thesis
    using assms(1) unfolding convertSchemaProperty_def acc
    by (simp add: Let_def split: option.splits)
qed

theorem allOf_merge_witness:
  "convertSchemaProperty ''mode'' (JObj [(''allOf'', JArr example_allOf)]) []
       (Some example_components)
     = Some \<lparr> param_name = ''mode'', param_type = TNumber,
              param_description = Some (JStr ''first''), param_default = Some (JStr ''x''),
              param_required = False, param_minimum = None, param_maximum = None,
              param_enum = Some [JStr ''b''] \<rparr>"
proof -
  let ?property = "JObj [(''allOf'', JArr example_allOf)]"
  have h1: "''mode'' \<notin> set EXCLUDED_PARAMS" by (simp add: EXCLUDED_PARAMS_def)
  have h2: "field ?property ''type'' \<notin> {Some (JStr ''integer''), Some (JStr ''number''),
           Some (JStr ''boolean''), Some (JStr ''array'')}"
    by simp
  have h3: "array_field ?property ''allOf'' = Some example_allOf" by (simp add: array_field_def)
  have h4: "example_allOf \<noteq> []" by (simp add: example_allOf_def)
  have h5: "truthy example_components" by (simp add: example_components_def)
  have defs: "resolved_definitions example_components example_allOf
     = [example_first_definition, example_second_definition]"
    by code_simp
  have enums: "supplied_enums example_components example_allOf = [[JStr ''a''], [JStr ''b'']]"
    by code_simp
  show ?thesis
    unfolding allOf_merge [OF h1 h2 h3 h4 h5, of "[]"] defs enums
    by (simp add: example_first_definition_def example_second_definition_def
        scalar_type_of_def last_of_def first_of_def
        js_or_def truthy_opt_def number_field_def array_field_def)
qed

text \<open>
  With two resolved definitions that both supply a type and an enum list, the parameter
  has the type and the enum list of the second one, not of the first.
\<close>

theorem allOf_merge_counterexample:
  "resolved_definitions example_components example_allOf
     = [example_first_definition, example_second_definition] \<and>
   scalar_type_of example_first_definition = Some TInteger \<and>
   array_field example_first_definition ''enum'' = Some [JStr ''a''] \<and>
   convertSchemaProperty ''mode'' (JObj [(''allOf'', JArr example_allOf)]) []
       (Some example_components)
     = Some \<lparr> param_name = ''mode'', param_type = TNumber,
              param_description = Some (JStr ''first''), param_default = Some (JStr ''x''),
              param_required = False, param_minimum = None, param_maximum = None,
              param_enum = Some [JStr ''b''] \<rparr>"
  by code_simp

subsection \<open>The cache\<close>

lemma GET_hit:
  assumes "query_provider request = Some provider"
    and "provider = ''replicate'' \<or> provider = ''fal''"
    and "cache (cacheKey provider (decodedModelId request)) = Some e"
    and "now_at_check w - entry_timestamp e < CACHE_TTL"
  shows "GET cache w request
           = ((200, SchemaSuccess (entry_parameters e) (entry_inputs e) True), cache)"
  using assms by (auto simp: GET_def Let_def)

lemma GET_miss:
  assumes "query_provider request = Some provider"
    and "provider = ''replicate'' \<or> provider = ''fal''"
    and "\<forall>e. cache (cacheKey provider (decodedModelId request)) = Some e \<longrightarrow>
           \<not> now_at_check w - entry_timestamp e < CACHE_TTL"
  shows "GET cache w request =
     (if provider = ''replicate'' \<and> \<not> present (header_X_Replicate_Key request) then
        ((401, SchemaError ''Replicate API key required. Include X-Replicate-Key header.''), cache)
      else
        (case fetch_schema provider w of
           Inl e \<Rightarrow>
             ((500, SchemaError (case thrown_message e of Some m \<Rightarrow> m | None \<Rightarrow> ''Unknown error'')),
              cache)
         | Inr result \<Rightarrow>
             ((200, SchemaSuccess (parameters result) (inputs result) False),
              cache(cacheKey provider (decodedModelId request) \<mapsto>
                \<lparr> entry_parameters = parameters result, entry_inputs = inputs result,
                  entry_timestamp = now_at_store w \<rparr>))))"
proof (cases "cache (cacheKey provider (decodedModelId request))")
  case None
  with assms(1,2) show ?thesis by (auto simp: GET_def Let_def)
next
  case (Some e)
  with assms(3) have "\<not> now_at_check w - entry_timestamp e < CACHE_TTL" by simp
  with Some assms(1,2) show ?thesis by (auto simp: GET_def Let_def)
qed

text \<open>
  Claim C6. For a lookup with a valid provider: the time-to-live is 10 minutes in
  milliseconds; the reply is a success with \<open>cached: true\<close> if and only if the cache
  holds an entry for the key whose age at the check is strictly less than the
  time-to-live, and then the reply carries the stored parameters and inputs and the cache
  is unchanged. Otherwise the reply is the one of a lookup with no entry for the key; a
  success reply then has \<open>cached: false\<close>, carries what the fetcher returned, and the
  entry is replaced by that result stamped with the clock at the store; and this is the
  reply whenever the credential (for Replicate) is present and the fetcher returns.
\<close>

theorem cache_hit_iff_within_ttl:
  assumes "query_provider request = Some provider"
    and "provider = ''replicate'' \<or> provider = ''fal''"
  shows "CACHE_TTL = 10 * 60 * 1000 \<and>
     ((\<exists>ps ins. fst (GET cache w request) = (200, SchemaSuccess ps ins True)) \<longleftrightarrow>
      (\<exists>e. cache (cacheKey provider (decodedModelId request)) = Some e \<and>
           now_at_check w - entry_timestamp e < CACHE_TTL)) \<and>
     (\<forall>e. cache (cacheKey provider (decodedModelId request)) = Some e \<and>
           now_at_check w - entry_timestamp e < CACHE_TTL \<longrightarrow>
        GET cache w request
          = ((200, SchemaSuccess (entry_parameters e) (entry_inputs e) True), cache)) \<and>
     ((\<forall>e. cache (cacheKey provider (decodedModelId request)) = Some e \<longrightarrow>
           \<not> now_at_check w - entry_timestamp e < CACHE_TTL) \<longrightarrow>
        fst (GET cache w request)
          = fst (GET (cache(cacheKey provider (decodedModelId request) := None)) w request) \<and>
        (\<forall>ps ins c. fst (GET cache w request) = (200, SchemaSuccess ps ins c) \<longrightarrow>
           \<not> c \<and> fetch_schema provider w = Inr \<lparr> parameters = ps, inputs = ins \<rparr> \<and>
           snd (GET cache w request)
             = cache(cacheKey provider (decodedModelId request) \<mapsto>
                 \<lparr> entry_parameters = ps, entry_inputs = ins,
                   entry_timestamp = now_at_store w \<rparr>)) \<and>
        (\<forall>result. (provider = ''replicate'' \<longrightarrow> present (header_X_Replicate_Key request)) \<and>
           fetch_schema provider w = Inr result \<longrightarrow>
           GET cache w request
             = ((200, SchemaSuccess (parameters result) (inputs result) False),
                cache(cacheKey provider (decodedModelId request) \<mapsto>
                  \<lparr> entry_parameters = parameters result, entry_inputs = inputs result,
                    entry_timestamp = now_at_store w \<rparr>))))"
proof -
  let ?key = "cacheKey provider (decodedModelId request)"
  let ?fresh = "\<exists>e. cache ?key = Some e \<and> now_at_check w - entry_timestamp e < CACHE_TTL"
  have ttl: "CACHE_TTL = 10 * 60 * 1000" by (simp add: CACHE_TTL_def)
  have hit: "GET cache w request
          = ((200, SchemaSuccess (entry_parameters e) (entry_inputs e) True), cache)"
    if "cache ?key = Some e \<and> now_at_check w - entry_timestamp e < CACHE_TTL" for e
    using GET_hit [OF assms, of cache e w] that by simp
  have miss: "GET cache w request =
     (if provider = ''replicate'' \<and> \<not> present (header_X_Replicate_Key request) then
        ((401, SchemaError ''Replicate API key required. Include X-Replicate-Key header.''), cache)
      else
        (case fetch_schema provider w of
           Inl e \<Rightarrow>
             ((500, SchemaError (case thrown_message e of Some m \<Rightarrow> m | None \<Rightarrow> ''Unknown error'')),
              cache)
         | Inr result \<Rightarrow>
             ((200, SchemaSuccess (parameters result) (inputs result) False),
              cache(?key \<mapsto>
                \<lparr> entry_parameters = parameters result, entry_inputs = inputs result,
                  entry_timestamp = now_at_store w \<rparr>))))"
    if "\<not> ?fresh"
    using GET_miss [OF assms, of cache w] that by blast
  have miss_flag: "\<not> (\<exists>ps ins. fst (GET cache w request) = (200, SchemaSuccess ps ins True))"
    if "\<not> ?fresh"
    unfolding miss [OF that] by (auto split: sum.splits)
  have iff: "(\<exists>ps ins. fst (GET cache w request) = (200, SchemaSuccess ps ins True)) \<longleftrightarrow> ?fresh"
  proof
    assume "\<exists>ps ins. fst (GET cache w request) = (200, SchemaSuccess ps ins True)"
    with miss_flag show ?fresh by blast
  next
    assume ?fresh
    then obtain e where "cache ?key = Some e \<and> now_at_check w - entry_timestamp e < CACHE_TTL"
      by blast
    from hit [OF this] show "\<exists>ps ins. fst (GET cache w request) = (200, SchemaSuccess ps ins True)"
      by simp
  qed
  have absent: "fst (GET cache w request) = fst (GET (cache(?key := None)) w request)"
    if "\<not> ?fresh"
  proof -
    have "\<forall>e. (cache(?key := None)) ?key = Some e \<longrightarrow>
           \<not> now_at_check w - entry_timestamp e < CACHE_TTL"
      by simp
    from GET_miss [of request provider "cache(?key := None)" w, OF assms this] miss [OF that] show ?thesis
      by (auto split: sum.splits)
  qed
  have success: "\<not> c \<and> fetch_schema provider w = Inr \<lparr> parameters = ps, inputs = ins \<rparr> \<and>
           snd (GET cache w request)
             = cache(?key \<mapsto> \<lparr> entry_parameters = ps, entry_inputs = ins,
                   entry_timestamp = now_at_store w \<rparr>)"
    if "\<not> ?fresh" and "fst (GET cache w request) = (200, SchemaSuccess ps ins c)" for ps ins c
    using that(2) unfolding miss [OF that(1)]
    by (auto split: if_splits sum.splits)
  have refetch: "GET cache w request
             = ((200, SchemaSuccess (parameters result) (inputs result) False),
                cache(?key \<mapsto>
                  \<lparr> entry_parameters = parameters result, entry_inputs = inputs result,
                    entry_timestamp = now_at_store w \<rparr>))"
    if "\<not> ?fresh" and "(provider = ''replicate'' \<longrightarrow> present (header_X_Replicate_Key request)) \<and>
           fetch_schema provider w = Inr result" for result
    using that(2) unfolding miss [OF that(1)] by auto
  have stale: "(\<forall>e. cache ?key = Some e \<longrightarrow> \<not> now_at_check w - entry_timestamp e < CACHE_TTL)
      \<longleftrightarrow> \<not> ?fresh"
    by blast
  show ?thesis
    unfolding stale using ttl iff hit absent success refetch by blast
qed

theorem cache_hit_iff_within_ttl_witness:
  "GET example_cache (example_schema_world 600999) example_schema_request
     = ((200, SchemaSuccess [] [] True), example_cache) \<and>
   GET example_cache (example_schema_world 601000) example_schema_request
     = ((200, SchemaSuccess [] [] False),
        example_cache(cacheKey ''fal'' ''owner/model-x'' \<mapsto>
          \<lparr> entry_parameters = [], entry_inputs = [], entry_timestamp = 601250 \<rparr>))"
proof
  have p: "query_provider example_schema_request = Some ''fal''"
    by (simp add: example_schema_request_def)
  have v: "''fal'' = ''replicate'' \<or> ''fal'' = ''fal''" by simp
  have key: "cacheKey ''fal'' (decodedModelId example_schema_request)
      = cacheKey ''fal'' ''owner/model-x''"
    by (simp add: example_schema_request_def)
  have entry: "example_cache (cacheKey ''fal'' (decodedModelId example_schema_request))
      = Some example_entry"
    by (simp add: key example_cache_def)
  have fresh: "now_at_check (example_schema_world 600999) - entry_timestamp example_entry < CACHE_TTL"
    by (simp add: example_schema_world_def example_entry_def CACHE_TTL_def)
  from cache_hit_iff_within_ttl [OF p v, of example_cache "example_schema_world 600999"]
    entry fresh
  have "GET example_cache (example_schema_world 600999) example_schema_request
          = ((200, SchemaSuccess (entry_parameters example_entry) (entry_inputs example_entry) True),
             example_cache)"
    by blast
  then show "GET example_cache (example_schema_world 600999) example_schema_request
     = ((200, SchemaSuccess [] [] True), example_cache)"
    by (simp add: example_entry_def)
next
  have p: "query_provider example_schema_request = Some ''fal''"
    by (simp add: example_schema_request_def)
  have v: "''fal'' = ''replicate'' \<or> ''fal'' = ''fal''" by simp
  have key: "cacheKey ''fal'' (decodedModelId example_schema_request)
      = cacheKey ''fal'' ''owner/model-x''"
    by (simp add: example_schema_request_def)
  have stale: "\<forall>e. example_cache (cacheKey ''fal'' (decodedModelId example_schema_request)) = Some e
      \<longrightarrow> \<not> now_at_check (example_schema_world 601000) - entry_timestamp e < CACHE_TTL"
    by (simp add: key example_cache_def example_schema_world_def example_entry_def CACHE_TTL_def)
  have fetched: "(''fal'' = ''replicate'' \<longrightarrow> present (header_X_Replicate_Key example_schema_request)) \<and>
      fetch_schema ''fal'' (example_schema_world 601000) = Inr empty_schema"
    by (simp add: fetch_schema_def fetchFalSchema_def example_schema_world_def json_response_def
        resp_ok_def)
  from cache_hit_iff_within_ttl [OF p v, of example_cache "example_schema_world 601000"]
    stale fetched
  have "GET example_cache (example_schema_world 601000) example_schema_request
             = ((200, SchemaSuccess (parameters empty_schema) (inputs empty_schema) False),
                example_cache(cacheKey ''fal'' (decodedModelId example_schema_request) \<mapsto>
                  \<lparr> entry_parameters = parameters empty_schema, entry_inputs = inputs empty_schema,
                    entry_timestamp = now_at_store (example_schema_world 601000) \<rparr>))"
    by blast
  then show "GET example_cache (example_schema_world 601000) example_schema_request
     = ((200, SchemaSuccess [] [] False),
        example_cache(cacheKey ''fal'' ''owner/model-x'' \<mapsto>
          \<lparr> entry_parameters = [], entry_inputs = [], entry_timestamp = 601250 \<rparr>))"
    by (simp add: key empty_schema_def example_schema_world_def)
qed
section \<open>Properties of the generation route\<close>

subsection \<open>Input mapping\<close>

lemma map_of_build_paramMap:
  "distinct (map fst table) \<Longrightarrow> (genericName, patterns) \<in> set table \<Longrightarrow>
     map_of (build_paramMap properties table) genericName = match_patterns properties patterns"
proof (induction table)
  case Nil
  then show ?case by simp
next
  case (Cons e table)
  obtain g ps where e: "e = (g, ps)" by (cases e)
  have notin: "g \<notin> fst ` set table" using Cons.prems(1) e by simp
  have absent: "map_of (build_paramMap properties table) g = None"
    using notin by (induction table) (auto split: option.splits)
  show ?case
  proof (cases "g = genericName")
    case True
    with Cons.prems e notin have "ps = patterns" by (auto simp: image_iff)
    with True e absent show ?thesis by (simp split: option.splits)
  next
    case False
    with Cons e show ?thesis by (auto split: option.splits)
  qed
qed

lemma INPUT_PATTERNS_distinct: "distinct (map fst INPUT_PATTERNS)"
  by (simp add: INPUT_PATTERNS_def)

lemma match_patterns_Some:
  "match_patterns properties patterns = Some v \<Longrightarrow>
     \<exists>before pattern after. patterns = before @ pattern # after \<and>
       (\<forall>p \<in> set before. \<not> truthy_opt (map_of properties p) \<and>
          find (partial_match p) (map fst properties) \<in> {None, Some []}) \<and>
       (if truthy_opt (map_of properties pattern) then v = pattern
        else find (partial_match pattern) (map fst properties) = Some v \<and> v \<noteq> [])"
proof (induction patterns)
  case Nil
  then show ?case by simp
next
  case (Cons p ps)
  show ?case
  proof (cases "truthy_opt (map_of properties p) \<or>
      (\<exists>m. find (partial_match p) (map fst properties) = Some m \<and> m \<noteq> [])")
    case True
    with Cons.prems have "if truthy_opt (map_of properties p) then v = p
        else find (partial_match p) (map fst properties) = Some v \<and> v \<noteq> []"
      by (auto split: if_splits option.splits)
    then have "p # ps = [] @ p # ps \<and>
       (\<forall>q \<in> set []. \<not> truthy_opt (map_of properties q) \<and>
          find (partial_match q) (map fst properties) \<in> {None, Some []}) \<and>
       (if truthy_opt (map_of properties p) then v = p
        else find (partial_match p) (map fst properties) = Some v \<and> v \<noteq> [])"
      by simp
    then show ?thesis by blast
  next
    case False
    then have skip: "\<not> truthy_opt (map_of properties p)"
      "find (partial_match p) (map fst properties) \<in> {None, Some []}"
      by (auto, cases "find (partial_match p) (map fst properties)", auto)
    with Cons.prems have "match_patterns properties ps = Some v"
      by (auto split: option.splits if_splits)
    from Cons.IH [OF this] obtain before pattern after where
      ps: "ps = before @ pattern # after"
      and bef: "\<forall>p \<in> set before. \<not> truthy_opt (map_of properties p) \<and>
          find (partial_match p) (map fst properties) \<in> {None, Some []}"
      and hit: "if truthy_opt (map_of properties pattern) then v = pattern
        else find (partial_match pattern) (map fst properties) = Some v \<and> v \<noteq> []"
      by blast
    have "p # ps = (p # before) @ pattern # after" using ps by simp
    moreover have "\<forall>q \<in> set (p # before). \<not> truthy_opt (map_of properties q) \<and>
          find (partial_match q) (map fst properties) \<in> {None, Some []}"
      using bef skip by simp
    ultimately show ?thesis using hit by blast
  qed
qed

lemma match_patterns_None:
  "match_patterns properties patterns = None \<Longrightarrow>
     \<forall>p \<in> set patterns. \<not> truthy_opt (map_of properties p) \<and>
          find (partial_match p) (map fst properties) \<in> {None, Some []}"
  by (induction patterns) (auto split: if_splits option.splits)

text \<open>
  Claim C5, as the code has it. The mapping of a generic name is the result of the loop
  over its candidates. The candidates are tried in table order; each candidate is tried
  first as an exact property (present with a truthy value) and then, before the next
  candidate is looked at, by case-insensitive containment in either direction against the
  property names in their order. The candidate that wins is the first one that matches
  either way; every candidate before it matches neither way.
\<close>

theorem input_mapping_order:
  assumes "input_properties schema = Some (JObj properties)"
    and "(genericName, patterns) \<in> set INPUT_PATTERNS"
  shows "map_of (getInputMappingFromSchema (Some schema)) genericName
           = match_patterns properties patterns \<and>
         (\<forall>v. match_patterns properties patterns = Some v \<longrightarrow>
            (\<exists>before pattern after. patterns = before @ pattern # after \<and>
               (\<forall>p \<in> set before. \<not> truthy_opt (map_of properties p) \<and>
                  find (partial_match p) (map fst properties) \<in> {None, Some []}) \<and>
               (if truthy_opt (map_of properties pattern) then v = pattern
                else find (partial_match pattern) (map fst properties) = Some v \<and> v \<noteq> []))) \<and>
         (match_patterns properties patterns = None \<longrightarrow>
            (\<forall>p \<in> set patterns. \<not> truthy_opt (map_of properties p) \<and>
               find (partial_match p) (map fst properties) \<in> {None, Some []}))"
proof -
  from assms(1) obtain kvs where "schema = JObj kvs"
    by (cases schema) (simp_all add: input_properties_def opt_field_def)
  then have "truthy schema" by simp
  with assms(1) have "getInputMappingFromSchema (Some schema)
      = build_paramMap properties INPUT_PATTERNS"
    by (simp add: getInputMappingFromSchema_def paramMap_of_schema_def)
  then have "map_of (getInputMappingFromSchema (Some schema)) genericName
      = match_patterns properties patterns"
    using map_of_build_paramMap [OF INPUT_PATTERNS_distinct assms(2)] by simp
  then show ?thesis
    using match_patterns_Some [of properties patterns] match_patterns_None [of properties patterns]
    by blast
qed

theorem input_mapping_order_witness:
  "map_of (getInputMappingFromSchema (Some (JObj [(''components'', JObj [(''schemas'',
       JObj [(''Input'', JObj [(''properties'', JObj [(''caption_text'', JObj [])])])])])])))
     ''prompt'' = Some ''caption_text''"
proof -
  have h1: "input_properties (JObj [(''components'', JObj [(''schemas'',
       JObj [(''Input'', JObj [(''properties'', JObj [(''caption_text'', JObj [])])])])])])
     = Some (JObj [(''caption_text'', JObj [])])"
    by (simp add: input_properties_def opt_field_def)
  have h2: "(''prompt'', [''prompt'', ''text'', ''caption'', ''input_text'', ''description'', ''query''])
      \<in> set INPUT_PATTERNS"
    by (simp add: INPUT_PATTERNS_def)
  have "match_patterns [(''caption_text'', JObj [])]
      [''prompt'', ''text'', ''caption'', ''input_text'', ''description'', ''query'']
      = Some ''caption_text''"
    by code_simp
  with input_mapping_order [OF h1 h2] show ?thesis by simp
qed

text \<open>
  An exact match on a later candidate does not win over a containment match on an earlier
  one: with the properties \<open>text\<close> and \<open>my_prompt\<close>, the candidate \<open>text\<close> of \<open>prompt\<close>
  is an exact property, and \<open>prompt\<close> is mapped to \<open>my_prompt\<close>.
\<close>

theorem input_mapping_order_counterexample:
  "truthy_opt (map_of [(''text'', JObj []), (''my_prompt'', JObj [])] ''text'') \<and>
   map_of INPUT_PATTERNS ''prompt''
     = Some [''prompt'', ''text'', ''caption'', ''input_text'', ''description'', ''query''] \<and>
   map_of (getInputMappingFromSchema (Some (JObj [(''components'', JObj [(''schemas'',
       JObj [(''Input'', JObj [(''properties'',
         JObj [(''text'', JObj []), (''my_prompt'', JObj [])])])])])])))
     ''prompt'' = Some ''my_prompt''"
  by code_simp

subsection \<open>The polling loop\<close>

lemma is_terminal_not_null: "is_terminal p \<Longrightarrow> p \<noteq> JNull"
  by (auto simp: is_terminal_def)

lemma poll_loop_pending_step:
  assumes "p \<noteq> JNull" and "\<not> is_terminal p" and "pending_poll start x"
  shows "\<exists>polled. polled \<noteq> JNull \<and> \<not> is_terminal polled \<and>
           poll_loop name start p (x # script) =
             (case poll_loop name start polled script of
                None \<Rightarrow> None
              | Some (outcome, n) \<Rightarrow> Some (outcome, Suc n))"
proof -
  obtain now response where x: "x = (now, response)" by (cases x)
  from assms(3) x obtain r polled where r: "response = Inr r" "resp_ok r"
      "resp_json r = Some polled" "polled \<noteq> JNull" "\<not> is_terminal polled"
      and t: "now - start \<le> maxWaitTime"
    by (auto simp: pending_poll_def split: sum.splits option.splits)
  have "poll_loop name start p (x # script) =
             (case poll_loop name start polled script of
                None \<Rightarrow> None
              | Some (outcome, n) \<Rightarrow> Some (outcome, Suc n))"
    using assms(1,2) x r t by (simp add: poll_loop.simps [of name start p] json_of_def)
  with r show ?thesis by blast
qed

lemma poll_loop_timeout:
  assumes "\<forall>x \<in> set before. pending_poll start x"
    and "p \<noteq> JNull" and "\<not> is_terminal p"
    and "maxWaitTime < fst ev - start"
  shows "poll_loop name start p (before @ ev # after)
           = Some (Returned (failure (timeout_message name)), length before)"
  using assms
proof (induction before arbitrary: p)
  case Nil
  obtain now response where "ev = (now, response)" by (cases ev)
  with Nil show ?case by (simp add: poll_loop.simps [of name start p])
next
  case (Cons x before)
  from Cons.prems have "pending_poll start x" by simp
  from poll_loop_pending_step [OF Cons.prems(2,3) this, of name "before @ ev # after"]
  obtain polled where polled: "polled \<noteq> JNull" "\<not> is_terminal polled"
    and step: "poll_loop name start p (x # before @ ev # after) =
             (case poll_loop name start polled (before @ ev # after) of
                None \<Rightarrow> None
              | Some (outcome, n) \<Rightarrow> Some (outcome, Suc n))"
    by blast
  have "poll_loop name start polled (before @ ev # after)
      = Some (Returned (failure (timeout_message name)), length before)"
    using Cons.IH [of polled] Cons.prems polled by simp
  with step show ?case by simp
qed

lemma poll_loop_settled:
  assumes "\<forall>x \<in> set before. pending_poll start x"
    and "p \<noteq> JNull" and "\<not> is_terminal p"
    and "fst ev - start \<le> maxWaitTime"
    and "snd ev = Inr r" and "resp_ok r" and "resp_json r = Some final" and "is_terminal final"
  shows "poll_loop name start p (before @ ev # after) = Some (Settled final, Suc (length before))"
  using assms
proof (induction before arbitrary: p)
  case Nil
  obtain now response where ev: "ev = (now, response)" by (cases ev)
  have fin: "poll_loop name start final after = Some (Settled final, 0)"
    using Nil.prems(8) is_terminal_not_null [of final]
    by (simp add: poll_loop.simps [of name start final])
  show ?case
    using Nil.prems ev fin by (simp add: poll_loop.simps [of name start p] json_of_def)
next
  case (Cons x before)
  from Cons.prems have "pending_poll start x" by simp
  from poll_loop_pending_step [OF Cons.prems(2,3) this, of name "before @ ev # after"]
  obtain polled where polled: "polled \<noteq> JNull" "\<not> is_terminal polled"
    and step: "poll_loop name start p (x # before @ ev # after) =
             (case poll_loop name start polled (before @ ev # after) of
                None \<Rightarrow> None
              | Some (outcome, n) \<Rightarrow> Some (outcome, Suc n))"
    by blast
  have "poll_loop name start polled (before @ ev # after) = Some (Settled final, Suc (length before))"
    using Cons.IH [of polled] Cons.prems polled by simp
  with step show ?case by simp
qed

lemma replicate_finish_failed:
  assumes "field final ''status'' = Some (JStr ''failed'')"
    and "field final ''error'' = Some (JStr reason)" and "reason \<noteq> []"
  shows "replicate_finish pf w input final
           = Inr (failure (model_name (gen_model input) @ '': '' @ reason))"
  using assms by (simp add: replicate_finish_def js_or_else_def display_def)

text \<open>
  Claim C7. A job was submitted: the requests before the loop gave a prediction. If the
  prediction has status \<open>failed\<close> and states a reason, the result is the failure
  \<open>name: reason\<close>. If it is pending and the loop's iterations \<open>before\<close> leave the job
  pending (every status request is answered by a status that is not terminal), then the
  next iteration \<open>ev\<close> decides. When the ceiling has elapsed at its check, the loop makes
  no further status request (it made \<open>length before\<close>) and the result is the timeout
  failure, whose message starts with the model's name. When the ceiling has not elapsed
  and the status request is answered by a terminal status, the loop stops after this
  request; for the status \<open>failed\<close> with a stated reason the result is the failure
  \<open>name: reason\<close>.
\<close>

theorem polling_outcomes:
  assumes "replicate_create pf w input = Inr (Inr prediction)"
  shows "(field prediction ''status'' = Some (JStr ''failed'') \<and>
          field prediction ''error'' = Some (JStr reason) \<and> reason \<noteq> [] \<longrightarrow>
            generateWithReplicate pf w input
              = Some (Inr (failure (model_name (gen_model input) @ '': '' @ reason)))) \<and>
         (prediction \<noteq> JNull \<and> \<not> is_terminal prediction \<and>
          pollScript w = before @ ev # after \<and>
          (\<forall>x \<in> set before. pending_poll (startTime w) x) \<longrightarrow>
            (maxWaitTime < fst ev - startTime w \<longrightarrow>
               poll_loop (model_name (gen_model input)) (startTime w) prediction (pollScript w)
                 = Some (Returned (failure (model_name (gen_model input) @
                      '': Generation timed out after 5 minutes. Video models may take longer - try again.'')),
                    length before) \<and>
               generateWithReplicate pf w input
                 = Some (Inr (failure (model_name (gen_model input) @
                      '': Generation timed out after 5 minutes. Video models may take longer - try again.'')))) \<and>
            (fst ev - startTime w \<le> maxWaitTime \<and> snd ev = Inr r \<and> resp_ok r \<and>
             resp_json r = Some final \<and> is_terminal final \<longrightarrow>
               poll_loop (model_name (gen_model input)) (startTime w) prediction (pollScript w)
                 = Some (Settled final, Suc (length before)) \<and>
               generateWithReplicate pf w input = Some (replicate_finish pf w input final) \<and>
               (field final ''status'' = Some (JStr ''failed'') \<and>
                field final ''error'' = Some (JStr reason) \<and> reason \<noteq> [] \<longrightarrow>
                  generateWithReplicate pf w input
                    = Some (Inr (failure (model_name (gen_model input) @ '': '' @ reason))))))"
proof (intro conjI impI)
  assume a: "field prediction ''status'' = Some (JStr ''failed'') \<and>
          field prediction ''error'' = Some (JStr reason) \<and> reason \<noteq> []"
  then have terminal: "is_terminal prediction" by (simp add: is_terminal_def)
  then have "poll_loop (model_name (gen_model input)) (startTime w) prediction (pollScript w)
      = Some (Settled prediction, 0)"
    using is_terminal_not_null [OF terminal] by (simp add: poll_loop.simps [of _ _ prediction])
  then show "generateWithReplicate pf w input
              = Some (Inr (failure (model_name (gen_model input) @ '': '' @ reason)))"
    using assms a replicate_finish_failed [of prediction reason pf w input]
    by (simp add: generateWithReplicate_def)
next
  assume h: "prediction \<noteq> JNull \<and> \<not> is_terminal prediction \<and>
          pollScript w = before @ ev # after \<and>
          (\<forall>x \<in> set before. pending_poll (startTime w) x)"
    and t: "maxWaitTime < fst ev - startTime w"
  from h t have loop: "poll_loop (model_name (gen_model input)) (startTime w) prediction (pollScript w)
      = Some (Returned (failure (timeout_message (model_name (gen_model input)))), length before)"
    using poll_loop_timeout [of before "startTime w" prediction ev] by simp
  then show "poll_loop (model_name (gen_model input)) (startTime w) prediction (pollScript w)
                 = Some (Returned (failure (model_name (gen_model input) @
                      '': Generation timed out after 5 minutes. Video models may take longer - try again.'')),
                    length before)"
    by (simp add: timeout_message_def)
  from loop show "generateWithReplicate pf w input
                 = Some (Inr (failure (model_name (gen_model input) @
                      '': Generation timed out after 5 minutes. Video models may take longer - try again.'')))"
    using assms by (simp add: generateWithReplicate_def timeout_message_def)
next
  assume h: "prediction \<noteq> JNull \<and> \<not> is_terminal prediction \<and>
          pollScript w = before @ ev # after \<and>
          (\<forall>x \<in> set before. pending_poll (startTime w) x)"
    and e: "fst ev - startTime w \<le> maxWaitTime \<and> snd ev = Inr r \<and> resp_ok r \<and>
             resp_json r = Some final \<and> is_terminal final"
  from h e have loop: "poll_loop (model_name (gen_model input)) (startTime w) prediction (pollScript w)
      = Some (Settled final, Suc (length before))"
    using poll_loop_settled [of before "startTime w" prediction ev r final] by simp
  then show "poll_loop (model_name (gen_model input)) (startTime w) prediction (pollScript w)
      = Some (Settled final, Suc (length before))" .
  from loop show gen: "generateWithReplicate pf w input = Some (replicate_finish pf w input final)"
    using assms by (simp add: generateWithReplicate_def)
  assume "field final ''status'' = Some (JStr ''failed'') \<and>
                field final ''error'' = Some (JStr reason) \<and> reason \<noteq> []"
  then show "generateWithReplicate pf w input
                    = Some (Inr (failure (model_name (gen_model input) @ '': '' @ reason)))"
    using gen replicate_finish_failed [of final reason pf w input] by simp
qed

lemmas example_create_simps = replicate_create_def example_replicate_world_def json_response_def
      resp_ok_def json_of_def opt_field_def truthy_opt_def js_or_else_def Let_def

theorem polling_outcomes_witness:
  "generateWithReplicate example_platform
     (example_replicate_world
        (json_response 201 (JObj [(''id'', JStr ''p1''), (''status'', JStr ''starting'')]))
        [(1000, Inr (json_response 200 (JObj [(''status'', JStr ''processing'')]))),
         (301000, Inr (json_response 200 (JObj [(''status'', JStr ''succeeded'')])))])
     example_input
   = Some (Inr (failure
       ''Model X: Generation timed out after 5 minutes. Video models may take longer - try again.'')) \<and>
   generateWithReplicate example_platform
     (example_replicate_world
        (json_response 201 (JObj [(''id'', JStr ''p1''), (''status'', JStr ''starting'')]))
        [(1000, Inr (json_response 200 (JObj [(''status'', JStr ''processing'')]))),
         (2000, Inr (json_response 200
            (JObj [(''status'', JStr ''failed''), (''error'', JStr ''out of memory'')])))])
     example_input
   = Some (Inr (failure ''Model X: out of memory''))"
proof
  let ?p0 = "JObj [(''id'', JStr ''p1''), (''status'', JStr ''starting'')]"
  let ?e1 = "(1000 :: int, Inr (json_response 200 (JObj [(''status'', JStr ''processing'')]))
               :: thrown + http_response)"
  let ?e2 = "(301000 :: int, Inr (json_response 200 (JObj [(''status'', JStr ''succeeded'')]))
               :: thrown + http_response)"
  let ?w = "example_replicate_world (json_response 201 ?p0) [?e1, ?e2]"
  have c: "replicate_create example_platform ?w example_input = Inr (Inr ?p0)"
    by (simp add: example_create_simps)
  have h: "?p0 \<noteq> JNull \<and> \<not> is_terminal ?p0 \<and> pollScript ?w = [?e1] @ ?e2 # [] \<and>
      (\<forall>x \<in> set [?e1]. pending_poll (startTime ?w) x)"
    by (simp add: is_terminal_def pending_poll_def example_replicate_world_def json_response_def
        resp_ok_def maxWaitTime_def)
  have t: "maxWaitTime < fst ?e2 - startTime ?w"
    by (simp add: maxWaitTime_def example_replicate_world_def)
  have nm: "model_name (gen_model example_input) = ''Model X''"
    by (simp add: example_input_def)
  from polling_outcomes [OF c, where before = "[?e1]" and ev = ?e2 and after = "[]"] h t
  have "generateWithReplicate example_platform ?w example_input
   = Some (Inr (failure (model_name (gen_model example_input) @
       '': Generation timed out after 5 minutes. Video models may take longer - try again.'')))"
    by blast
  then show "generateWithReplicate example_platform ?w example_input
   = Some (Inr (failure
       ''Model X: Generation timed out after 5 minutes. Video models may take longer - try again.''))"
    by (simp add: nm)
next
  let ?p0 = "JObj [(''id'', JStr ''p1''), (''status'', JStr ''starting'')]"
  let ?final = "JObj [(''status'', JStr ''failed''), (''error'', JStr ''out of memory'')]"
  let ?e1 = "(1000 :: int, Inr (json_response 200 (JObj [(''status'', JStr ''processing'')]))
               :: thrown + http_response)"
  let ?e2 = "(2000 :: int, Inr (json_response 200 ?final) :: thrown + http_response)"
  let ?w = "example_replicate_world (json_response 201 ?p0) [?e1, ?e2]"
  have c: "replicate_create example_platform ?w example_input = Inr (Inr ?p0)"
    by (simp add: example_create_simps)
  have h: "?p0 \<noteq> JNull \<and> \<not> is_terminal ?p0 \<and> pollScript ?w = [?e1] @ ?e2 # [] \<and>
      (\<forall>x \<in> set [?e1]. pending_poll (startTime ?w) x)"
    by (simp add: is_terminal_def pending_poll_def example_replicate_world_def json_response_def
        resp_ok_def maxWaitTime_def)
  have e: "fst ?e2 - startTime ?w \<le> maxWaitTime \<and> snd ?e2 = Inr (json_response 200 ?final) \<and>
      resp_ok (json_response 200 ?final) \<and> resp_json (json_response 200 ?final) = Some ?final \<and>
      is_terminal ?final"
    by (simp add: is_terminal_def example_replicate_world_def json_response_def
        resp_ok_def maxWaitTime_def)
  have f: "field ?final ''status'' = Some (JStr ''failed'') \<and>
      field ?final ''error'' = Some (JStr ''out of memory'') \<and> ''out of memory'' \<noteq> []"
    by simp
  have nm: "model_name (gen_model example_input) = ''Model X''"
    by (simp add: example_input_def)
  from polling_outcomes [OF c, where before = "[?e1]" and ev = ?e2 and after = "[]"
      and r = "json_response 200 ?final" and final = ?final and reason = "''out of memory''"] h e f
  have "generateWithReplicate example_platform ?w example_input
   = Some (Inr (failure (model_name (gen_model example_input) @ '': '' @ ''out of memory'')))"
    by blast
  then show "generateWithReplicate example_platform ?w example_input
   = Some (Inr (failure ''Model X: out of memory''))"
    by (simp add: nm)
qed

subsection \<open>Rate limits\<close>

text \<open>
  Claim C3 at a request the code can receive: Replicate answers the creation of the
  prediction with HTTP 429. The adapter returns its rate-limit failure, and the handler
  replies to every adapter failure with status 500.
\<close>

theorem rate_limit_reply_status:
  "POST example_platform
     (example_world ''replicate''
        (example_replicate_world (json_response 429 (JObj [(''detail'', JStr ''throttled'')])) []))
   = Some (error_reply 500 ''Model X: Rate limit exceeded. Try again in a moment.'')"
  by (simp add: POST_def example_world_def example_request_def validation_passes_def present_def
      generateWithReplicate_def replicate_create_def example_replicate_world_def json_response_def
      resp_ok_def json_of_def opt_field_def truthy_opt_def js_or_else_def
      replicate_create_failure_def build_input_def adapter_reply_def failure_def
      process_dynamic_inputs_def Let_def)

subsection \<open>Media sizing\<close>

lemma media_size_threshold: "(real n / (1024 * 1024) > 20) \<longleftrightarrow> 20 * 1024 * 1024 < n"
proof -
  have "(real n / (1024 * 1024) > 20) \<longleftrightarrow> real n > 20 * (1024 * 1024)"
    by (simp add: pos_less_divide_eq)
  also have "\<dots> \<longleftrightarrow> 20 * 1024 * 1024 < n" by linarith
  finally show ?thesis .
qed

text \<open>
  Claim C8. The fetched medium has the content type \<open>ct\<close>. When the Replicate adapter
  classifies it as video (the type starts with \<open>video/\<close>), and when the fal adapter does
  (the type starts with \<open>video/\<close>, or the URL was found under \<open>video\<close>), the output
  record is the same in both: above 20 MB (\<open>20 * 1024 * 1024\<close> bytes) its data is the URL
  itself, at or below it the data URI \<open>data:ct;base64,...\<close> of the fetched bytes.
\<close>

theorem video_media_sizing:
  assumes "resp_content_type r = Some ct" and "ct \<noteq> []"
  shows "(prefix ''video/'' ct \<longrightarrow>
            replicate_media_output pf url r =
              succeeded \<lparr> out_type = MediaVideo,
                          out_data = (if 20 * 1024 * 1024 < length (resp_bytes r) then url
                                      else ''data:'' @ ct @ '';base64,'' @ base64 pf (resp_bytes r)),
                          out_url = url \<rparr>) \<and>
         (prefix ''video/'' ct \<or> isVideoModel \<longrightarrow>
            fal_media_output pf isVideoModel url r =
              succeeded \<lparr> out_type = MediaVideo,
                          out_data = (if 20 * 1024 * 1024 < length (resp_bytes r) then url
                                      else ''data:'' @ ct @ '';base64,'' @ base64 pf (resp_bytes r)),
                          out_url = url \<rparr>)"
  using assms
  by (simp add: replicate_media_output_def fal_media_output_def Let_def media_size_threshold
      del: of_nat_less_numeral_iff)

theorem video_media_sizing_witness:
  "replicate_media_output \<lparr> to_string = (\<lambda>v. []), stringify = (\<lambda>v. []), base64 = (\<lambda>b. b) \<rparr>
      ''https://cdn/out.mp4''
      \<lparr> resp_status = 200, resp_content_type = Some ''video/mp4'', resp_text = [],
        resp_json = None, resp_bytes = replicate 20971521 (CHR ''x'') \<rparr>
    = succeeded \<lparr> out_type = MediaVideo, out_data = ''https://cdn/out.mp4'',
                  out_url = ''https://cdn/out.mp4'' \<rparr> \<and>
   fal_media_output \<lparr> to_string = (\<lambda>v. []), stringify = (\<lambda>v. []), base64 = (\<lambda>b. b) \<rparr>
      False ''https://cdn/out.mp4''
      \<lparr> resp_status = 200, resp_content_type = Some ''video/mp4'', resp_text = [],
        resp_json = None, resp_bytes = ''abc'' \<rparr>
    = succeeded \<lparr> out_type = MediaVideo, out_data = ''data:video/mp4;base64,abc'',
                  out_url = ''https://cdn/out.mp4'' \<rparr>"
proof -
  have v: "prefix ''video/'' ''video/mp4''" by simp
  have ne: "''video/mp4'' \<noteq> []" by simp
  show ?thesis
    using video_media_sizing [of "\<lparr> resp_status = 200, resp_content_type = Some ''video/mp4'',
        resp_text = [], resp_json = None, resp_bytes = replicate 20971521 (CHR ''x'') \<rparr>"
        "''video/mp4''"
        "\<lparr> to_string = (\<lambda>v. []), stringify = (\<lambda>v. []), base64 = (\<lambda>b. b) \<rparr>"
        "''https://cdn/out.mp4''" False]
      video_media_sizing [of "\<lparr> resp_status = 200, resp_content_type = Some ''video/mp4'',
        resp_text = [], resp_json = None, resp_bytes = ''abc'' \<rparr>"
        "''video/mp4''"
        "\<lparr> to_string = (\<lambda>v. []), stringify = (\<lambda>v. []), base64 = (\<lambda>b. b) \<rparr>"
        "''https://cdn/out.mp4''" False]
    by simp
qed

subsection \<open>The request payload\<close>

lemma map_of_obj_set: "map_of (obj_set body k v) k' = (if k' = k then Some v else map_of body k')"
  by (induction body) auto

lemma in_obj_set:
  "(a, b) \<in> set (obj_set body k v) \<Longrightarrow> (a = k \<and> b = v) \<or> (a, b) \<in> set body"
  by (induction body) (auto split: if_splits)

lemma value_obj_set:
  "x \<in> snd ` set (obj_set body k v) \<Longrightarrow> x = v \<or> x \<in> snd ` set body"
  using in_obj_set by force

lemma value_obj_assign:
  "x \<in> snd ` set (obj_assign target src) \<Longrightarrow> x \<in> snd ` set target \<or> x \<in> snd ` set src"
proof (induction src arbitrary: target)
  case Nil
  then show ?case by simp
next
  case (Cons e src)
  obtain k v where e: "e = (k, v)" by (cases e)
  from Cons.prems e have "x \<in> snd ` set (obj_assign (obj_set target k v) src)" by simp
  from Cons.IH [OF this] have "x \<in> snd ` set (obj_set target k v) \<or> x \<in> snd ` set src" .
  then show ?case using value_obj_set [of x target k v] e by auto
qed

lemma value_rename_parameters:
  "x \<in> snd ` set (rename_parameters paramMap body ps) \<Longrightarrow>
     x \<in> snd ` set body \<or> x \<in> snd ` set ps"
proof (induction ps arbitrary: body)
  case Nil
  then show ?case by simp
next
  case (Cons e ps)
  obtain k v where e: "e = (k, v)" by (cases e)
  from Cons.prems e
  have "x \<in> snd ` set (rename_parameters paramMap (obj_set body (mapped_or paramMap k k) v) ps)"
    by simp
  from Cons.IH [OF this]
  have "x \<in> snd ` set (obj_set body (mapped_or paramMap k k) v) \<or> x \<in> snd ` set ps" .
  then show ?case using value_obj_set [of x body "mapped_or paramMap k k" v] e by auto
qed

lemma map_of_rename_parameters:
  "\<forall>(key, value) \<in> set ps. mapped_or paramMap key key \<noteq> k \<Longrightarrow>
     map_of (rename_parameters paramMap body ps) k = map_of body k"
  by (induction ps arbitrary: body) (auto simp: map_of_obj_set)

lemma map_generic_inputs_tail:
  "gen_images input = img # rest \<Longrightarrow>
     map_generic_inputs pm d input body = map_generic_inputs pm d (input\<lparr>gen_images := [img]\<rparr>) body"
  by (simp add: map_generic_inputs_def Let_def split: option.splits)

lemma map_generic_inputs_values:
  assumes "x \<in> snd ` set (map_generic_inputs pm d input body)"
  shows "x \<in> snd ` set body \<or> x \<in> snd ` set (case gen_parameters input of Some ps \<Rightarrow> ps | None \<Rightarrow> [])
         \<or> x = JStr (gen_prompt input) \<or> x \<in> JStr ` set (take 1 (gen_images input))"
proof -
  let ?b1 = "if gen_prompt input \<noteq> []
             then obj_set body (mapped_or pm ''prompt'' ''prompt'') (JStr (gen_prompt input))
             else body"
  let ?b2 = "case gen_images input of [] \<Rightarrow> ?b1
             | img # _ \<Rightarrow> obj_set ?b1 (mapped_or pm ''image'' d) (JStr img)"
  have b1: "y \<in> snd ` set ?b1 \<Longrightarrow> y \<in> snd ` set body \<or> y = JStr (gen_prompt input)" for y
    using value_obj_set [of y body "mapped_or pm ''prompt'' ''prompt''" "JStr (gen_prompt input)"]
    by (cases "gen_prompt input = []") auto
  have b2: "y \<in> snd ` set ?b2 \<Longrightarrow>
      y \<in> snd ` set body \<or> y = JStr (gen_prompt input) \<or> y \<in> JStr ` set (take 1 (gen_images input))" for y
  proof (cases "gen_images input")
    case Nil
    then show "y \<in> snd ` set ?b2 \<Longrightarrow> ?thesis" using b1 [of y] by simp
  next
    case (Cons img rest)
    assume "y \<in> snd ` set ?b2"
    with Cons have "y \<in> snd ` set (obj_set ?b1 (mapped_or pm ''image'' d) (JStr img))" by simp
    from value_obj_set [OF this] have "y = JStr img \<or> y \<in> snd ` set ?b1" .
    then show ?thesis using b1 [of y] Cons by auto
  qed
  have "x \<in> snd ` set ?b2 \<or> x \<in> snd ` set (case gen_parameters input of Some ps \<Rightarrow> ps | None \<Rightarrow> [])"
  proof (cases "gen_parameters input")
    case None
    with assms show ?thesis by (simp add: map_generic_inputs_def Let_def)
  next
    case (Some ps)
    with assms have "x \<in> snd ` set (rename_parameters pm ?b2 ps)"
      by (simp add: map_generic_inputs_def Let_def)
    from value_rename_parameters [OF this] Some show ?thesis by simp
  qed
  with b2 [of x] show ?thesis by blast
qed

lemma map_generic_inputs_image:
  assumes "gen_images input = img # rest"
    and "\<forall>(key, value) \<in> set (case gen_parameters input of Some ps \<Rightarrow> ps | None \<Rightarrow> []).
           mapped_or pm key key \<noteq> mapped_or pm ''image'' d"
  shows "map_of (map_generic_inputs pm d input body) (mapped_or pm ''image'' d) = Some (JStr img)"
  using assms
  by (cases "gen_parameters input")
     (simp_all add: map_generic_inputs_def Let_def map_of_obj_set map_of_rename_parameters)

text \<open>
  Claim C9. For an input without dynamic inputs whose images are \<open>img # rest\<close>, the
  payload of either adapter is the payload for the single image \<open>img\<close>; every value in it
  is a value of the parameters, the prompt or \<open>img\<close>, so no element of \<open>rest\<close> is sent
  unless the parameters carry it; and \<open>img\<close> is the value of the mapped image field
  (default \<open>image\<close> for Replicate, \<open>image_url\<close> for fal) when no parameter is assigned
  to that field afterwards.
\<close>

theorem only_first_image_sent:
  assumes "\<not> hasDynamicInputs input" and "gen_images input = img # rest"
  shows "replicate_prediction_input schema input
           = replicate_prediction_input schema (input\<lparr>gen_images := [img]\<rparr>) \<and>
         fal_request_body schemaResponse input
           = fal_request_body schemaResponse (input\<lparr>gen_images := [img]\<rparr>) \<and>
         (\<forall>x \<in> snd ` set (replicate_prediction_input schema input) \<union>
                snd ` set (fal_request_body schemaResponse input).
            x \<in> snd ` set (case gen_parameters input of Some ps \<Rightarrow> ps | None \<Rightarrow> []) \<or>
            x = JStr (gen_prompt input) \<or> x = JStr img) \<and>
         ((\<forall>(key, value) \<in> set (case gen_parameters input of Some ps \<Rightarrow> ps | None \<Rightarrow> []).
             mapped_or (getInputMappingFromSchema schema) key key
               \<noteq> mapped_or (getInputMappingFromSchema schema) ''image'' ''image'') \<longrightarrow>
          map_of (replicate_prediction_input schema input)
            (mapped_or (getInputMappingFromSchema schema) ''image'' ''image'') = Some (JStr img)) \<and>
         ((\<forall>(key, value) \<in> set (case gen_parameters input of Some ps \<Rightarrow> ps | None \<Rightarrow> []).
             mapped_or (getFalInputMapping schemaResponse) key key
               \<noteq> mapped_or (getFalInputMapping schemaResponse) ''image'' ''image_url'') \<longrightarrow>
          map_of (fal_request_body schemaResponse input)
            (mapped_or (getFalInputMapping schemaResponse) ''image'' ''image_url'') = Some (JStr img))"
proof -
  let ?ps = "case gen_parameters input of Some ps \<Rightarrow> ps | None \<Rightarrow> []"
  let ?base = "obj_assign [] ?ps"
  have nd: "\<not> hasDynamicInputs (input\<lparr>gen_images := [img]\<rparr>)"
    using assms(1) by (simp add: hasDynamicInputs_def)
  have r: "replicate_prediction_input schema input
      = map_generic_inputs (getInputMappingFromSchema schema) ''image'' input ?base"
    using assms(1) by (simp add: replicate_prediction_input_def)
  have f: "fal_request_body schemaResponse input
      = map_generic_inputs (getFalInputMapping schemaResponse) ''image_url'' input ?base"
    using assms(1) by (simp add: fal_request_body_def)
  have base: "y \<in> snd ` set ?base \<Longrightarrow> y \<in> snd ` set ?ps" for y
    using value_obj_assign [of y "[]" ?ps] by simp
  have one: "JStr ` set (take 1 (gen_images input)) = {JStr img}"
    using assms(2) by simp
  have c1: "replicate_prediction_input schema input
           = replicate_prediction_input schema (input\<lparr>gen_images := [img]\<rparr>)"
    using nd assms map_generic_inputs_tail [OF assms(2)]
    by (simp add: replicate_prediction_input_def)
  have c2: "fal_request_body schemaResponse input
           = fal_request_body schemaResponse (input\<lparr>gen_images := [img]\<rparr>)"
    using nd assms map_generic_inputs_tail [OF assms(2)]
    by (simp add: fal_request_body_def)
  have c3: "\<forall>x \<in> snd ` set (replicate_prediction_input schema input) \<union>
                snd ` set (fal_request_body schemaResponse input).
            x \<in> snd ` set ?ps \<or> x = JStr (gen_prompt input) \<or> x = JStr img"
  proof
    fix x
    assume "x \<in> snd ` set (replicate_prediction_input schema input) \<union>
                snd ` set (fal_request_body schemaResponse input)"
    then have "x \<in> snd ` set ?base \<or> x \<in> snd ` set ?ps \<or> x = JStr (gen_prompt input)
        \<or> x \<in> JStr ` set (take 1 (gen_images input))"
      unfolding r f using map_generic_inputs_values [of x _ _ input ?base] by blast
    then show "x \<in> snd ` set ?ps \<or> x = JStr (gen_prompt input) \<or> x = JStr img"
      using base [of x] one by blast
  qed
  have c4: "(\<forall>(key, value) \<in> set ?ps.
             mapped_or (getInputMappingFromSchema schema) key key
               \<noteq> mapped_or (getInputMappingFromSchema schema) ''image'' ''image'') \<longrightarrow>
          map_of (replicate_prediction_input schema input)
            (mapped_or (getInputMappingFromSchema schema) ''image'' ''image'') = Some (JStr img)"
    unfolding r using map_generic_inputs_image [OF assms(2)] by blast
  have c5: "(\<forall>(key, value) \<in> set ?ps.
             mapped_or (getFalInputMapping schemaResponse) key key
               \<noteq> mapped_or (getFalInputMapping schemaResponse) ''image'' ''image_url'') \<longrightarrow>
          map_of (fal_request_body schemaResponse input)
            (mapped_or (getFalInputMapping schemaResponse) ''image'' ''image_url'') = Some (JStr img)"
    unfolding f using map_generic_inputs_image [OF assms(2)] by blast
  from c1 c2 c3 c4 c5 show ?thesis by blast
qed

theorem only_first_image_sent_witness:
  "replicate_prediction_input None example_input
     = [(''seed'', JNum 7), (''prompt'', JStr ''a cat''),
        (''image'', JStr ''data:image/png;base64,AAAA'')] \<and>
   fal_request_body (Inr (json_response 404 JNull)) example_input
     = [(''seed'', JNum 7), (''prompt'', JStr ''a cat''),
        (''image_url'', JStr ''data:image/png;base64,AAAA'')]"
proof -
  have h1: "\<not> hasDynamicInputs example_input"
    by (simp add: hasDynamicInputs_def example_input_def)
  have h2: "gen_images example_input
      = ''data:image/png;base64,AAAA'' # [''data:image/png;base64,BBBB'']"
    by (simp add: example_input_def)
  have r: "replicate_prediction_input None
      (example_input\<lparr>gen_images := [''data:image/png;base64,AAAA'']\<rparr>)
     = [(''seed'', JNum 7), (''prompt'', JStr ''a cat''),
        (''image'', JStr ''data:image/png;base64,AAAA'')]"
    by (simp add: replicate_prediction_input_def hasDynamicInputs_def example_input_def
        map_generic_inputs_def getInputMappingFromSchema_def mapped_or_def Let_def)
  have f: "fal_request_body (Inr (json_response 404 JNull))
      (example_input\<lparr>gen_images := [''data:image/png;base64,AAAA'']\<rparr>)
     = [(''seed'', JNum 7), (''prompt'', JStr ''a cat''),
        (''image_url'', JStr ''data:image/png;base64,AAAA'')]"
    by (simp add: fal_request_body_def hasDynamicInputs_def example_input_def
        map_generic_inputs_def getFalInputMapping_def json_response_def resp_ok_def
        mapped_or_def Let_def)
  from only_first_image_sent [OF h1 h2, of None "Inr (json_response 404 JNull)"] r f
  show ?thesis by simp
qed

subsection \<open>The reply for a video\<close>

lemma POST_adapter:
  assumes "requestBody w = Inr body" and "validation_passes body"
    and "req_selectedModel body = Some selected"
    and "(sel_provider selected = Some ''replicate'' \<and> present (header_replicate_key w) \<and>
          generateWithReplicate pf (replicate_answers w) (build_input ''replicate'' selected body)
            = Some (Inr result)) \<or>
         (sel_provider selected = Some ''fal'' \<and>
          generateWithFal pf (fal_answers w) (header_fal_key w) (build_input ''fal'' selected body)
            = Inr result)"
  shows "POST pf w = Some (adapter_reply result)"
  using assms by (auto simp: POST_def)

text \<open>
  Claim C10. A valid request is routed to Replicate or fal, and the adapter returns a
  success whose first output is a video with non-empty data. The handler replies with
  status 200, \<open>contentType\<close> \<open>video\<close>, and exactly one of \<open>videoUrl\<close> and \<open>video\<close>: the
  data goes to \<open>videoUrl\<close> when it starts with \<open>http\<close> and to \<open>video\<close> otherwise.
\<close>

theorem video_reply_fields:
  assumes "requestBody w = Inr body" and "validation_passes body"
    and "req_selectedModel body = Some selected"
    and "(sel_provider selected = Some ''replicate'' \<and> present (header_replicate_key w) \<and>
          generateWithReplicate pf (replicate_answers w) (build_input ''replicate'' selected body)
            = Some (Inr result)) \<or>
         (sel_provider selected = Some ''fal'' \<and>
          generateWithFal pf (fal_answers w) (header_fal_key w) (build_input ''fal'' selected body)
            = Inr result)"
    and "gen_success result" and "gen_outputs result = Some (output # rest)"
    and "out_type output = MediaVideo" and "out_data output \<noteq> []"
  shows "\<exists>response. POST pf w = Some (200, response) \<and>
           res_success response \<and> res_contentType response = Some ''video'' \<and>
           res_image response = None \<and> res_error response = None \<and>
           (if prefix ''http'' (out_data output)
            then res_videoUrl response = Some (out_data output) \<and> res_video response = None
            else res_video response = Some (out_data output) \<and> res_videoUrl response = None)"
proof -
  have "POST pf w = Some (adapter_reply result)"
    using assms(1-4) by (rule POST_adapter)
  then show ?thesis
    using assms(5-8) by (simp add: adapter_reply_def Let_def)
qed

theorem video_reply_fields_witness:
  "POST example_platform (example_world ''fal'' (example_replicate_world (json_response 429 JNull) []))
   = Some (200, \<lparr> res_success = True, res_image = None,
                  res_video = Some ''data:video/mp4;base64,abc'', res_videoUrl = None,
                  res_contentType = Some ''video'', res_error = None \<rparr>)"
proof -
  let ?w = "example_world ''fal'' (example_replicate_world (json_response 429 JNull) [])"
  let ?sel = "\<lparr> sel_provider = Some ''fal'', sel_modelId = ''owner/model-x'',
                sel_displayName = ''Model X'' \<rparr>"
  let ?out = "\<lparr> out_type = MediaVideo, out_data = ''data:video/mp4;base64,abc'',
                out_url = ''https://cdn.example/out.mp4'' \<rparr>"
  have h1: "requestBody ?w = Inr (example_request ''fal'')" by (simp add: example_world_def)
  have h2: "validation_passes (example_request ''fal'')"
    by (simp add: validation_passes_def example_request_def present_def)
  have h3: "req_selectedModel (example_request ''fal'') = Some ?sel"
    by (simp add: example_request_def)
  have g: "generateWithFal example_platform (fal_answers ?w) (header_fal_key ?w)
      (build_input ''fal'' ?sel (example_request ''fal'')) = Inr (succeeded ?out)"
    by (simp add: generateWithFal_def example_world_def example_fal_world_def json_response_def
        media_response_def resp_ok_def json_of_def fal_media_url_def opt_field_def truthy_opt_def
        js_or_else_def display_def fal_media_output_def example_platform_def Let_def)
  have h4: "(sel_provider ?sel = Some ''replicate'' \<and> present (header_replicate_key ?w) \<and>
          generateWithReplicate example_platform (replicate_answers ?w)
            (build_input ''replicate'' ?sel (example_request ''fal'')) = Some (Inr (succeeded ?out))) \<or>
         (sel_provider ?sel = Some ''fal'' \<and>
          generateWithFal example_platform (fal_answers ?w) (header_fal_key ?w)
            (build_input ''fal'' ?sel (example_request ''fal'')) = Inr (succeeded ?out))"
    using g by simp
  have h5: "gen_success (succeeded ?out)" "gen_outputs (succeeded ?out) = Some (?out # [])"
    "out_type ?out = MediaVideo" "out_data ?out \<noteq> []"
    by (simp_all add: succeeded_def)
  from video_reply_fields [OF h1 h2 h3 h4 h5]
  obtain response where p: "POST example_platform ?w = Some (200, response)"
    and fields: "res_success response" "res_contentType response = Some ''video''"
      "res_image response = None" "res_error response = None"
      "res_video response = Some ''data:video/mp4;base64,abc''" "res_videoUrl response = None"
    by auto
  from fields have "response = \<lparr> res_success = True, res_image = None,
                  res_video = Some ''data:video/mp4;base64,abc'', res_videoUrl = None,
                  res_contentType = Some ''video'', res_error = None \<rparr>"
    by (cases response) simp
  with p show ?thesis by simp
qed
end
